theory Spec2Isabelle
  imports Complex_Main
begin

section \<open>Values and errors\<close>

text \<open>
  The validation hooks of \<^verbatim>\<open>api/serializers.py\<close> receive Python values that were parsed
  from a JSON body.  Three shapes of value are modelled: \<^verbatim>\<open>None\<close>, an integer and a
  string.  Strings are lists of 8-bit characters, so a user name or a text is an ASCII
  string here; code points beyond ASCII are outside the model.
\<close>

datatype pyval = PyNone | PyInt int | PyStr string

text \<open>
  Every \<^verbatim>\<open>raise\<close> of the source is a value.  The messages of the validation errors
  are kept symbolic, one constructor for each place that raises:
  \<^item> \<open>Username_not_valid n\<close>: \<^verbatim>\<open>f'Username {VALIDATE_NAME} is not valid'\<close>
    (\<^verbatim>\<open>RegisterDataSerializer.validate_username\<close>);
  \<^item> \<open>Not_a_correct_year\<close>: \<^verbatim>\<open>'%(value)s is not a correcrt year!!!'\<close>
    (\<^verbatim>\<open>TitleSerializer.validator_year\<close>);
  \<^item> \<open>Invalid_value\<close>: the Russian message of \<^verbatim>\<open>validate_score\<close> and
    \<^verbatim>\<open>validate_rating\<close> ("inadmissible value");
  \<^item> \<open>Only_one_review\<close>: the Russian message of \<^verbatim>\<open>ReviewSerializer.validate\<close>
    ("only one review may be written");
  \<^item> \<open>Max_value_10\<close>, \<open>Min_value_1\<close>: the messages of the two validators of
    \<^verbatim>\<open>Review.score\<close>;
  \<^item> \<open>Year_in_future\<close>: the message of \<^verbatim>\<open>reviews.validators.validate_year\<close>;
  \<^item> the others are the framework's own codes: \<^verbatim>\<open>required\<close>, \<^verbatim>\<open>null\<close>,
    \<^verbatim>\<open>blank\<close>, \<^verbatim>\<open>invalid\<close>, \<^verbatim>\<open>invalid_choice\<close>,
    \<^verbatim>\<open>null_characters_not_allowed\<close>, \<^verbatim>\<open>unique\<close> of a field and
    \<^verbatim>\<open>unique\<close> of a set of fields.
\<close>

datatype detail =
    Username_not_valid string
  | Not_a_correct_year
  | Invalid_value
  | Only_one_review
  | Max_value_10
  | Min_value_1
  | Year_in_future
  | Required
  | Null
  | Blank
  | Invalid
  | Invalid_choice
  | Null_characters
  | Unique
  | Unique_together

text \<open>
  \<open>ValidationError ds\<close> is a validation error with its list of messages (one message
  when a hook raises it);
  \<open>FieldErrors es\<close> is the validation error a serializer raises after it has collected
  the errors of its fields, keyed by field name (the key \<^verbatim>\<open>non_field_errors\<close> holds
  an error of \<^verbatim>\<open>validate\<close> or of a validator of the whole serializer).  The other
  constructors are not validation errors: \<^verbatim>\<open>Http404\<close> of
  \<^verbatim>\<open>get_object_or_404\<close>, the ORM's \<^verbatim>\<open>MultipleObjectsReturned\<close> and
  \<^verbatim>\<open>IntegrityError\<close>, and Python's \<^verbatim>\<open>TypeError\<close> and
  \<^verbatim>\<open>AttributeError\<close>.  \<open>NotModelled\<close> is no exception of the program: it stands
  where the framework converts an input in a way that is left outside the model.
\<close>

datatype error =
    ValidationError "detail list"
  | FieldErrors "(string \<times> detail list) list"
  | Http404
  | MultipleObjectsReturned
  | IntegrityError
  | TypeError
  | AttributeError
  | NotModelled

subsection \<open>Python's \<^verbatim>\<open>str.lower\<close>, \<^verbatim>\<open>str.strip\<close> and \<^verbatim>\<open>str\<close> of an integer\<close>

definition lower_char :: "char \<Rightarrow> char" where
  "lower_char c =
     (let n = (of_char c :: nat) in if 65 \<le> n \<and> n \<le> 90 then char_of (n + 32) else c)"

definition lower :: "string \<Rightarrow> string" where
  "lower s = map lower_char s"

text \<open>The ASCII characters for which \<^verbatim>\<open>str.isspace\<close> holds.\<close>

definition isspace :: "char \<Rightarrow> bool" where
  "isspace c = (let n = (of_char c :: nat) in (9 \<le> n \<and> n \<le> 13) \<or> (28 \<le> n \<and> n \<le> 32))"

definition strip :: "string \<Rightarrow> string" where
  "strip s = rev (dropWhile isspace (rev (dropWhile isspace s)))"

fun str_nat :: "nat \<Rightarrow> string" where
  "str_nat n =
     (if n < 10 then [char_of (48 + n)] else str_nat (n div 10) @ [char_of (48 + n mod 10)])"

definition str_int :: "int \<Rightarrow> string" where
  "str_int i = (if i < 0 then CHR ''-'' # str_nat (nat (- i)) else str_nat (nat i))"

section \<open>The data model of \<^verbatim>\<open>reviews/models.py\<close>\<close>

text \<open>
  One record for each model class; \<open>pk\<close> is the primary key \<^verbatim>\<open>id\<close> that Django adds.
  A foreign key holds the primary key of the row it refers to, and is an option where
  the field is declared \<^verbatim>\<open>null=True\<close>.  \<^verbatim>\<open>Review.score\<close> is declared
  \<^verbatim>\<open>null=True\<close> as well.  A date is a number of seconds.
\<close>

definition SCORE_CHOICES :: "(int \<times> string) list" where
  "SCORE_CHOICES =
     [(1, ''1''), (2, ''2''), (3, ''3''), (4, ''4''), (5, ''5''),
      (6, ''6''), (7, ''7''), (8, ''8''), (9, ''9''), (10, ''10'')]"

definition ADMIN :: string where "ADMIN = ''admin''"
definition MODERATOR :: string where "MODERATOR = ''moderator''"
definition USER :: string where "USER = ''user''"

definition ROLES :: "(string \<times> string) list" where
  "ROLES = [(ADMIN, ''Admin''), (MODERATOR, ''Moderator''), (USER, ''User'')]"

record Category =
  pk :: nat
  name :: string
  slug :: string

record Genre =
  pk :: nat
  name :: string
  slug :: string

record Title =
  pk :: nat
  name :: string
  year :: int
  description :: "string option"
  rating :: "int option"
  genre :: "nat list"
  category :: "nat option"

text \<open>\<open>is_staff\<close> and \<open>is_superuser\<close> are the flags inherited from \<^verbatim>\<open>AbstractUser\<close>.\<close>

record User =
  pk :: nat
  username :: string
  email :: string
  bio :: "string option"
  role :: string
  first_name :: string
  last_name :: string
  confirmation_code :: string
  is_staff :: bool
  is_superuser :: bool

record Review =
  pk :: nat
  title :: nat
  "text" :: string
  author :: nat
  score :: "int option"
  pub_date :: nat

record Comment =
  pk :: nat
  review :: nat
  author :: nat
  "text" :: string
  pub_date :: nat

text \<open>The tables of the database.\<close>

record db =
  categories :: "Category list"
  genres :: "Genre list"
  titles :: "Title list"
  users :: "User list"
  reviews :: "Review list"
  comments :: "Comment list"

subsection \<open>\<^verbatim>\<open>User.is_admin\<close> and \<^verbatim>\<open>User.is_moderator\<close>\<close>

definition is_admin :: "User \<Rightarrow> bool" where
  "is_admin self = (User.role self = ADMIN \<or> is_staff self \<or> is_superuser self)"

definition is_moderator :: "User \<Rightarrow> bool" where
  "is_moderator self = (User.role self = MODERATOR)"

section \<open>Validation hooks of \<^verbatim>\<open>api/serializers.py\<close>\<close>

text \<open>
  A hook \<^verbatim>\<open>validate_<field>(self, value)\<close> returns the value or raises.
  \<^verbatim>\<open>VALIDATE_NAME\<close> is a constant of \<^verbatim>\<open>api_yamdb/settings.py\<close>: it is a parameter
  here.  \<^verbatim>\<open>value.lower()\<close> exists for a string only.
\<close>

definition validate_username :: "string \<Rightarrow> pyval \<Rightarrow> error + pyval" where
  "validate_username VALIDATE_NAME value =
     (case value of
        PyStr s \<Rightarrow>
          if lower s = VALIDATE_NAME
          then Inl (ValidationError [Username_not_valid VALIDATE_NAME])
          else Inr value
      | _ \<Rightarrow> Inl AttributeError)"

section \<open>Queries and deletion\<close>

text \<open>
  The aggregate \<^verbatim>\<open>Avg\<close> of a column: the mean of the values that are not null, and
  \<^verbatim>\<open>None\<close> when there is none.  The mean is an exact rational here; the program
  gets it as a float.
\<close>

definition Avg :: "int option list \<Rightarrow> rat option" where
  "Avg column =
     (let xs = List.map_filter (\<lambda>v. v) column
      in if xs = [] then None else Some (of_int (sum_list xs) / of_nat (length xs)))"

text \<open>
  \<^verbatim>\<open>TitleReadSerializer.get_rating\<close>:
  \<^verbatim>\<open>Review.objects.filter(title=obj.id).aggregate(Avg('score'))['score__avg']\<close>.
\<close>

definition get_rating :: "db \<Rightarrow> Title \<Rightarrow> rat option" where
  "get_rating d obj =
     Avg (map Review.score (filter (\<lambda>r. Review.title r = Title.pk obj) (reviews d)))"

text \<open>
  Deleting a row follows the \<^verbatim>\<open>on_delete\<close> of every foreign key that refers to it:
  \<^item> \<^verbatim>\<open>Comment.review\<close> and \<^verbatim>\<open>Comment.author\<close>: \<^verbatim>\<open>CASCADE\<close>;
  \<^item> \<^verbatim>\<open>Review.title\<close> and \<^verbatim>\<open>Review.author\<close>: \<^verbatim>\<open>CASCADE\<close>;
  \<^item> \<^verbatim>\<open>Title.category\<close>: \<^verbatim>\<open>SET_NULL\<close>.
  \<^verbatim>\<open>CASCADE\<close> deletes the referring rows, and what refers to them in turn;
  \<^verbatim>\<open>SET_NULL\<close> keeps the referring row and sets its reference to null.
\<close>

definition delete_Comments :: "(Comment \<Rightarrow> bool) \<Rightarrow> db \<Rightarrow> db" where
  "delete_Comments doomed d = d\<lparr>comments := filter (\<lambda>c. \<not> doomed c) (comments d)\<rparr>"

definition delete_Reviews :: "(Review \<Rightarrow> bool) \<Rightarrow> db \<Rightarrow> db" where
  "delete_Reviews doomed d =
     (let pks = map Review.pk (filter doomed (reviews d))
      in delete_Comments (\<lambda>c. Comment.review c \<in> set pks)
           (d\<lparr>reviews := filter (\<lambda>r. \<not> doomed r) (reviews d)\<rparr>))"

definition delete_Review :: "nat \<Rightarrow> db \<Rightarrow> db" where
  "delete_Review review_id d =
     delete_Comments (\<lambda>c. Comment.review c = review_id)
       (d\<lparr>reviews := filter (\<lambda>r. Review.pk r \<noteq> review_id) (reviews d)\<rparr>)"

definition delete_Title :: "nat \<Rightarrow> db \<Rightarrow> db" where
  "delete_Title title_id d =
     delete_Reviews (\<lambda>r. Review.title r = title_id)
       (d\<lparr>titles := filter (\<lambda>t. Title.pk t \<noteq> title_id) (titles d)\<rparr>)"

definition delete_User :: "nat \<Rightarrow> db \<Rightarrow> db" where
  "delete_User user_id d =
     delete_Comments (\<lambda>c. Comment.author c = user_id)
       (delete_Reviews (\<lambda>r. Review.author r = user_id)
          (d\<lparr>users := filter (\<lambda>u. User.pk u \<noteq> user_id) (users d)\<rparr>))"

definition delete_Category :: "nat \<Rightarrow> db \<Rightarrow> db" where
  "delete_Category category_id d =
     d\<lparr>categories := filter (\<lambda>c. Category.pk c \<noteq> category_id) (categories d),
       titles := map (\<lambda>t. if category t = Some category_id then t\<lparr>category := None\<rparr> else t)
                   (titles d)\<rparr>"

section \<open>Example data\<close>

definition example_users :: "User list" where
  "example_users =
     [\<lparr>User.pk = 1, username = ''ann'', email = ''ann@example.org'', bio = None,
        role = ''user'', first_name = '''', last_name = '''', confirmation_code = ''c1'',
        is_staff = False, is_superuser = False\<rparr>,
      \<lparr>User.pk = 2, username = ''bob'', email = ''bob@example.org'', bio = None,
        role = ''moderator'', first_name = '''', last_name = '''', confirmation_code = ''c2'',
        is_staff = False, is_superuser = False\<rparr>,
      \<lparr>User.pk = 3, username = ''eve'', email = ''eve@example.org'', bio = None,
        role = ''user'', first_name = '''', last_name = '''', confirmation_code = ''c3'',
        is_staff = False, is_superuser = False\<rparr>]"

definition example_titles :: "Title list" where
  "example_titles =
     [\<lparr>Title.pk = 1, name = ''Dune'', year = 1965, description = None, rating = None,
        genre = [1], category = Some 1\<rparr>,
      \<lparr>Title.pk = 2, name = ''Solaris'', year = 1961, description = None, rating = Some 7,
        genre = [1], category = Some 1\<rparr>,
      \<lparr>Title.pk = 3, name = ''Ubik'', year = 1969, description = None, rating = None,
        genre = [], category = None\<rparr>]"

definition example_reviews :: "Review list" where
  "example_reviews =
     [\<lparr>Review.pk = 1, title = 1, text = ''fine'', author = 1, score = Some 8, pub_date = 10\<rparr>,
      \<lparr>Review.pk = 2, title = 2, text = ''dull'', author = 1, score = Some 1, pub_date = 11\<rparr>,
      \<lparr>Review.pk = 3, title = 1, text = ''great'', author = 2, score = Some 10, pub_date = 12\<rparr>,
      \<lparr>Review.pk = 4, title = 2, text = ''weak'', author = 2, score = Some 2, pub_date = 13\<rparr>,
      \<lparr>Review.pk = 5, title = 2, text = ''so-so'', author = 3, score = Some 3, pub_date = 14\<rparr>]"

definition example_comments :: "Comment list" where
  "example_comments =
     [\<lparr>Comment.pk = 1, review = 1, author = 2, text = ''agreed'', pub_date = 20\<rparr>,
      \<lparr>Comment.pk = 2, review = 2, author = 3, text = ''no'', pub_date = 21\<rparr>,
      \<lparr>Comment.pk = 3, review = 3, author = 1, text = ''yes'', pub_date = 22\<rparr>]"

definition example_db :: db where
  "example_db =
     \<lparr>categories = [\<lparr>Category.pk = 1, name = ''Books'', slug = ''books''\<rparr>],
      genres = [\<lparr>Genre.pk = 1, name = ''Science fiction'', slug = ''sf''\<rparr>],
      titles = example_titles, users = example_users,
      reviews = example_reviews, comments = example_comments\<rparr>"

section \<open>The request and \<^verbatim>\<open>ReviewSerializer.validate\<close>\<close>

text \<open>
  What \<^verbatim>\<open>validate\<close> reads of the request: the HTTP method, the user (as the user
  name that the lookup \<^verbatim>\<open>username=user\<close> compares with) and the keyword arguments of
  the route, a dictionary.
\<close>

record request =
  "method" :: string
  user :: string
  kwargs :: "(string \<times> nat) list"

text \<open>
  \<^verbatim>\<open>get_object_or_404\<close>: the one row that satisfies the condition;
  \<^verbatim>\<open>Http404\<close> when there is none; with several rows the \<^verbatim>\<open>get\<close> of the ORM raises
  \<^verbatim>\<open>MultipleObjectsReturned\<close>.
\<close>

definition get_object_or_404 :: "'a list \<Rightarrow> ('a \<Rightarrow> bool) \<Rightarrow> error + 'a" where
  "get_object_or_404 objects cond =
     (case filter cond objects of
        [] \<Rightarrow> Inl Http404
      | [x] \<Rightarrow> Inr x
      | _ \<Rightarrow> Inl MultipleObjectsReturned)"

definition validate :: "db \<Rightarrow> request \<Rightarrow> 'a \<Rightarrow> error + 'a" where
  "validate d request data =
     (if method request \<noteq> ''POST'' then Inr data
      else
        let title_id = map_of (kwargs request) ''title_id'' in
        case get_object_or_404 (users d) (\<lambda>u. username u = user request) of
          Inl e \<Rightarrow> Inl e
        | Inr author_obj \<Rightarrow>
            (case get_object_or_404 (titles d) (\<lambda>t. Some (Title.pk t) = title_id) of
               Inl e \<Rightarrow> Inl e
             | Inr title_obj \<Rightarrow>
                 if \<exists>r \<in> set (reviews d).
                      Review.title r = Title.pk title_obj \<and> Review.author r = User.pk author_obj
                 then Inl (ValidationError [Only_one_review])
                 else Inr data))"

section \<open>The review table and its constraint\<close>

text \<open>
  \<^verbatim>\<open>Review.Meta.constraints\<close>.  A unique constraint is violated by a row that
  agrees with another row on every field of the constraint, none of the values being
  null.
\<close>

record UniqueConstraint =
  constraint_fields :: "string list"
  constraint_name :: string

definition Review_Meta_constraints :: "UniqueConstraint list" where
  "Review_Meta_constraints =
     [\<lparr>constraint_fields = [''title'', ''author''], constraint_name = ''unique_review''\<rparr>]"

definition Review_values :: "Review \<Rightarrow> (string \<times> pyval) list" where
  "Review_values r =
     [(''id'', PyInt (int (Review.pk r))),
      (''title'', PyInt (int (Review.title r))),
      (''text'', PyStr (Review.text r)),
      (''author'', PyInt (int (Review.author r))),
      (''score'', (case score r of None \<Rightarrow> PyNone | Some s \<Rightarrow> PyInt s)),
      (''pub_date'', PyInt (int (Review.pub_date r)))]"

definition violates ::
  "('r \<Rightarrow> (string \<times> pyval) list) \<Rightarrow> 'r list \<Rightarrow> UniqueConstraint \<Rightarrow> 'r \<Rightarrow> bool" where
  "violates values rows c new =
     (let key = (\<lambda>r. map (map_of (values r)) (constraint_fields c))
      in None \<notin> set (key new) \<and> Some PyNone \<notin> set (key new)
         \<and> (\<exists>old \<in> set rows. key old = key new))"

definition next_pk :: "nat list \<Rightarrow> nat" where
  "next_pk pks = Suc (fold max pks 0)"

text \<open>
  \<^verbatim>\<open>Review.objects.create\<close>: an insertion under a fresh key.  The database refuses
  (\<^verbatim>\<open>IntegrityError\<close>) a row that violates a constraint or refers to a title or a user
  that does not exist.
\<close>

definition Review_objects_create :: "db \<Rightarrow> Review \<Rightarrow> error + db" where
  "Review_objects_create d r =
     (if (\<exists>c \<in> set Review_Meta_constraints. violates Review_values (reviews d) c r)
         \<or> Review.title r \<notin> Title.pk ` set (titles d)
         \<or> Review.author r \<notin> User.pk ` set (users d)
      then Inl IntegrityError
      else Inr (d\<lparr>reviews := reviews d @ [r\<lparr>Review.pk := next_pk (map Review.pk (reviews d))\<rparr>]\<rparr>))"

text \<open>
  \<^verbatim>\<open>save\<close> of an instance: the row with its key is replaced, or the instance is
  inserted when the table has no row with its key, under the same checks against the
  other rows.
\<close>

definition Review_save :: "db \<Rightarrow> Review \<Rightarrow> error + db" where
  "Review_save d r =
     (if (\<exists>c \<in> set Review_Meta_constraints.
            violates Review_values (filter (\<lambda>old. Review.pk old \<noteq> Review.pk r) (reviews d)) c r)
         \<or> Review.title r \<notin> Title.pk ` set (titles d)
         \<or> Review.author r \<notin> User.pk ` set (users d)
      then Inl IntegrityError
      else if Review.pk r \<in> Review.pk ` set (reviews d)
      then Inr (d\<lparr>reviews := map (\<lambda>old. if Review.pk old = Review.pk r then r else old)
                                (reviews d)\<rparr>)
      else Inr (d\<lparr>reviews := reviews d @ [r]\<rparr>))"

text \<open>
  The states of the database: it starts with an empty review table; reviews are
  inserted, saved and deleted; titles and users are deleted, and their reviews with
  them; any other operation leaves the review table as it is.
\<close>

inductive reachable :: "db \<Rightarrow> bool" where
  init: "reviews d = [] \<Longrightarrow> reachable d"
| create: "reachable d \<Longrightarrow> Review_objects_create d r = Inr d' \<Longrightarrow> reachable d'"
| save: "reachable d \<Longrightarrow> Review_save d r = Inr d' \<Longrightarrow> reachable d'"
| delete_review: "reachable d \<Longrightarrow> reachable (delete_Review review_id d)"
| delete_title: "reachable d \<Longrightarrow> reachable (delete_Title title_id d)"
| delete_user: "reachable d \<Longrightarrow> reachable (delete_User user_id d)"
| other: "reachable d \<Longrightarrow> reviews d' = reviews d \<Longrightarrow> reachable d'"

definition unique_review :: "db \<Rightarrow> bool" where
  "unique_review d =
     (distinct (map Review.pk (reviews d))
      \<and> distinct (map (\<lambda>r. (Review.title r, Review.author r)) (reviews d)))"

definition example_data :: "(string \<times> pyval) list" where
  "example_data = [(''text'', PyStr ''fine''), (''score'', PyInt 8)]"

definition example_post :: request where
  "example_post = \<lparr>method = ''POST'', user = ''ann'', kwargs = [(''title_id'', 1)]\<rparr>"

definition example_patch :: request where
  "example_patch =
     \<lparr>method = ''PATCH'', user = ''ann'', kwargs = [(''title_id'', 1), (''review_id'', 1)]\<rparr>"

section \<open>Serializer fields\<close>

text \<open>
  The serializers of \<^verbatim>\<open>api/serializers.py\<close> are declarations: the checks they make
  are those of the framework's field classes, run with the options that the declaration
  gives.  This section states that contract of the framework for what the serializers
  use.

  An outcome of a field is a validated value, a failure, or \<open>Skip\<close>: the field is left out
  of the validated data (the framework's \<^verbatim>\<open>SkipField\<close>).
\<close>

datatype outcome = Skip | Value pyval | Fail error

datatype field_class =
    CharField
  | ChoiceField "(int \<times> string) list"
  | IntegerField
  | DateTimeField
  | SlugRelatedField string
  | PrimaryKeyRelatedField

record sfield =
  field_name :: string
  cls :: field_class
  read_only :: bool
  required :: bool
  allow_null :: bool
  validators :: "(pyval \<Rightarrow> error option) list"

subsection \<open>Validators\<close>

text \<open>
  A validator returns \<open>None\<close> or the error it raises.  The comparisons of
  \<^verbatim>\<open>MaxValueValidator\<close> and \<^verbatim>\<open>MinValueValidator\<close> are between integers; with
  another value Python raises \<^verbatim>\<open>TypeError\<close>.
\<close>

definition MaxValueValidator :: "int \<Rightarrow> detail \<Rightarrow> pyval \<Rightarrow> error option" where
  "MaxValueValidator limit_value message value =
     (case value of
        PyInt n \<Rightarrow> if n > limit_value then Some (ValidationError [message]) else None
      | _ \<Rightarrow> Some TypeError)"

definition MinValueValidator :: "int \<Rightarrow> detail \<Rightarrow> pyval \<Rightarrow> error option" where
  "MinValueValidator limit_value message value =
     (case value of
        PyInt n \<Rightarrow> if n < limit_value then Some (ValidationError [message]) else None
      | _ \<Rightarrow> Some TypeError)"

text \<open>The validator that every \<^verbatim>\<open>CharField\<close> of the framework carries.\<close>

definition ProhibitNullCharactersValidator :: "pyval \<Rightarrow> error option" where
  "ProhibitNullCharactersValidator value =
     (case value of
        PyStr s \<Rightarrow> if CHR 0x00 \<in> set s then Some (ValidationError [Null_characters]) else None
      | _ \<Rightarrow> None)"

text \<open>
  \<^verbatim>\<open>UniqueValidator(queryset=...)\<close> on a field: the rows of the queryset, without
  the instance that is being updated, must not hold the value in that column.
\<close>

definition exclude_current_instance :: "('r \<Rightarrow> nat) \<Rightarrow> 'r option \<Rightarrow> 'r list \<Rightarrow> 'r list" where
  "exclude_current_instance key instance queryset =
     (case instance of
        None \<Rightarrow> queryset
      | Some i \<Rightarrow> filter (\<lambda>r. key r \<noteq> key i) queryset)"

definition UniqueValidator :: "pyval list \<Rightarrow> pyval \<Rightarrow> error option" where
  "UniqueValidator column value =
     (if value \<in> set column then Some (ValidationError [Unique]) else None)"

text \<open>
  \<^verbatim>\<open>run_validators\<close>: every validator runs; the messages of the validation errors are
  collected and raised together; any other exception ends the run at once.
\<close>

fun run_validators :: "(pyval \<Rightarrow> error option) list \<Rightarrow> pyval \<Rightarrow> detail list \<Rightarrow> error option" where
  "run_validators [] value errors = (if errors = [] then None else Some (ValidationError errors))"
| "run_validators (v # vs) value errors =
     (case v value of
        None \<Rightarrow> run_validators vs value errors
      | Some (ValidationError ds) \<Rightarrow> run_validators vs value (errors @ ds)
      | Some e \<Rightarrow> Some e)"

subsection \<open>Conversion and validation of one field\<close>

text \<open>\<^verbatim>\<open>str(data)\<close>.\<close>

fun str :: "pyval \<Rightarrow> string" where
  "str PyNone = ''None''"
| "str (PyInt n) = str_int n"
| "str (PyStr s) = s"

text \<open>
  \<^verbatim>\<open>to_internal_value\<close> of the field class.  A \<^verbatim>\<open>CharField\<close> takes a string or
  a number, as a string with the white space at both ends removed.  A
  \<^verbatim>\<open>ChoiceField\<close> looks \<^verbatim>\<open>str(data)\<close> up among the \<^verbatim>\<open>str\<close> of the keys of its
  choices and returns the key.  An \<^verbatim>\<open>IntegerField\<close> returns an integer as it is;
  how it reads a number out of a string is not modelled.  The other classes occur on
  read-only fields only, whose entries are never converted.
\<close>

fun to_internal_value :: "field_class \<Rightarrow> pyval \<Rightarrow> error + pyval" where
  "to_internal_value CharField PyNone = Inl (ValidationError [Invalid])"
| "to_internal_value CharField data = Inr (PyStr (strip (str data)))"
| "to_internal_value (ChoiceField choices) data =
     (case find (\<lambda>(key, label). str_int key = str data) choices of
        Some (key, label) \<Rightarrow> Inr (PyInt key)
      | None \<Rightarrow> Inl (ValidationError [Invalid_choice]))"
| "to_internal_value IntegerField (PyInt n) = Inr (PyInt n)"
| "to_internal_value other data = Inl NotModelled"

definition field_validators :: "sfield \<Rightarrow> (pyval \<Rightarrow> error option) list" where
  "field_validators f =
     validators f @ (if cls f = CharField then [ProhibitNullCharactersValidator] else [])"

text \<open>
  \<^verbatim>\<open>run_validation\<close> of a field, on the entry of the field in the submitted data
  (\<open>None\<close>: there is no entry).  An absent entry is skipped in a partial update, fails
  when the field is required, and is skipped otherwise (no field below has a default).
  A null entry is the value of a field that allows null, and fails otherwise.  A
  \<^verbatim>\<open>CharField\<close> (none below allows blank) fails on a string that is empty once
  stripped.  Any other entry is converted and handed to the validators.
\<close>

definition run_validation :: "bool \<Rightarrow> sfield \<Rightarrow> pyval option \<Rightarrow> outcome" where
  "run_validation partial f data =
     (if read_only f then Skip
      else case data of
        None \<Rightarrow>
          if partial then Skip
          else if required f then Fail (ValidationError [Required])
          else Skip
      | Some PyNone \<Rightarrow>
          if allow_null f then Value PyNone else Fail (ValidationError [Null])
      | Some v \<Rightarrow>
          if cls f = CharField \<and> strip (str v) = '''' then Fail (ValidationError [Blank])
          else (case to_internal_value (cls f) v of
                  Inl e \<Rightarrow> Fail e
                | Inr value \<Rightarrow>
                    (case run_validators (field_validators f) value [] of
                       Some e \<Rightarrow> Fail e
                     | None \<Rightarrow> Value value)))"

subsection \<open>The fields of a serializer\<close>

text \<open>
  The methods of a serializer class, by name.  After a field has produced a value, the
  serializer looks for a method named \<^verbatim>\<open>validate_\<close> followed by the name of the
  field and, when the class has one, passes the value through it.
\<close>

type_synonym methods = "(string \<times> (pyval \<Rightarrow> error + pyval)) list"

definition field_step :: "bool \<Rightarrow> methods \<Rightarrow> sfield \<Rightarrow> (string \<times> pyval) list \<Rightarrow> outcome" where
  "field_step partial methods f data =
     (case run_validation partial f (map_of data (field_name f)) of
        Value v \<Rightarrow>
          (case map_of methods (''validate_'' @ field_name f) of
             None \<Rightarrow> Value v
           | Some validate_method \<Rightarrow>
               (case validate_method v of Inl e \<Rightarrow> Fail e | Inr v' \<Rightarrow> Value v'))
      | out \<Rightarrow> out)"

text \<open>
  \<^verbatim>\<open>to_internal_value\<close> of a serializer: the writable fields in their order; the
  validation errors are collected by field name and raised together at the end; any
  other exception ends the loop at once.
\<close>

fun fields_loop ::
  "bool \<Rightarrow> methods \<Rightarrow> (string \<times> pyval) list \<Rightarrow> sfield list
    \<Rightarrow> (string \<times> detail list) list \<Rightarrow> (string \<times> pyval) list
    \<Rightarrow> error + (string \<times> pyval) list" where
  "fields_loop partial methods data [] errors ret =
     (if errors = [] then Inr ret else Inl (FieldErrors errors))"
| "fields_loop partial methods data (f # fs) errors ret =
     (case field_step partial methods f data of
        Skip \<Rightarrow> fields_loop partial methods data fs errors ret
      | Value v \<Rightarrow> fields_loop partial methods data fs errors (ret @ [(field_name f, v)])
      | Fail (ValidationError ds) \<Rightarrow>
          fields_loop partial methods data fs (errors @ [(field_name f, ds)]) ret
      | Fail e \<Rightarrow> Inl e)"

definition serializer_to_internal_value ::
  "bool \<Rightarrow> methods \<Rightarrow> sfield list \<Rightarrow> (string \<times> pyval) list
    \<Rightarrow> error + (string \<times> pyval) list" where
  "serializer_to_internal_value partial methods declared data =
     fields_loop partial methods data (filter (\<lambda>f. \<not> read_only f) declared) [] []"

subsection \<open>Fields that a model serializer builds from the model\<close>

text \<open>
  What \<^verbatim>\<open>ModelSerializer\<close> reads of a model field.  \<open>mf_editable\<close> is false for the
  automatic primary key and for a date with \<^verbatim>\<open>auto_now_add\<close>: the serializer field
  is read-only then.  Otherwise the field is required unless the model field has a
  default, is blank or is null; it allows null when the model field is null; a model
  field with choices becomes a \<^verbatim>\<open>ChoiceField\<close>; the validators of the model field are
  those of the serializer field.
\<close>

record model_field =
  mf_name :: string
  mf_class :: field_class
  mf_null :: bool
  mf_blank :: bool
  mf_has_default :: bool
  mf_editable :: bool
  mf_choices :: "(int \<times> string) list option"
  mf_validators :: "(pyval \<Rightarrow> error option) list"

definition build_standard_field :: "model_field \<Rightarrow> sfield" where
  "build_standard_field mf =
     \<lparr>field_name = mf_name mf,
      cls = (case mf_choices mf of Some cs \<Rightarrow> ChoiceField cs | None \<Rightarrow> mf_class mf),
      read_only = (\<not> mf_editable mf),
      required = (mf_editable mf \<and> \<not> (mf_has_default mf \<or> mf_blank mf \<or> mf_null mf)),
      allow_null = (mf_editable mf \<and> mf_null mf),
      validators = mf_validators mf\<rparr>"

section \<open>The serializers\<close>

subsection \<open>\<^verbatim>\<open>ReviewSerializer\<close>\<close>

text \<open>The fields of the model \<^verbatim>\<open>Review\<close> that the serializer builds a field from.\<close>

definition Review_id :: model_field where
  "Review_id =
     \<lparr>mf_name = ''id'', mf_class = IntegerField, mf_null = False, mf_blank = True,
      mf_has_default = False, mf_editable = False, mf_choices = None, mf_validators = []\<rparr>"

definition Review_text :: model_field where
  "Review_text =
     \<lparr>mf_name = ''text'', mf_class = CharField, mf_null = False, mf_blank = False,
      mf_has_default = False, mf_editable = True, mf_choices = None, mf_validators = []\<rparr>"

definition Review_score :: model_field where
  "Review_score =
     \<lparr>mf_name = ''score'', mf_class = IntegerField, mf_null = True, mf_blank = False,
      mf_has_default = False, mf_editable = True, mf_choices = Some SCORE_CHOICES,
      mf_validators = [MaxValueValidator 10 Max_value_10, MinValueValidator 1 Min_value_1]\<rparr>"

definition Review_pub_date :: model_field where
  "Review_pub_date =
     \<lparr>mf_name = ''pub_date'', mf_class = DateTimeField, mf_null = False, mf_blank = True,
      mf_has_default = False, mf_editable = False, mf_choices = None, mf_validators = []\<rparr>"

definition validate_score :: "pyval \<Rightarrow> error + pyval" where
  "validate_score value =
     (case value of
        PyInt n \<Rightarrow> if n < 1 \<or> n > 10 then Inl (ValidationError [Invalid_value]) else Inr value
      | _ \<Rightarrow> Inl TypeError)"

text \<open>
  \<^verbatim>\<open>author\<close> and \<^verbatim>\<open>title\<close> are declared in the class, both with
  \<^verbatim>\<open>read_only=True\<close>; the other fields of \<^verbatim>\<open>Meta.fields\<close> come from the model.
\<close>

definition ReviewSerializer_author :: sfield where
  "ReviewSerializer_author =
     \<lparr>field_name = ''author'', cls = SlugRelatedField ''username'', read_only = True,
      required = False, allow_null = False, validators = []\<rparr>"

definition ReviewSerializer_title :: sfield where
  "ReviewSerializer_title =
     \<lparr>field_name = ''title'', cls = PrimaryKeyRelatedField, read_only = True,
      required = False, allow_null = False, validators = []\<rparr>"

definition ReviewSerializer_fields :: "sfield list" where
  "ReviewSerializer_fields =
     [build_standard_field Review_id, build_standard_field Review_text,
      ReviewSerializer_author, build_standard_field Review_pub_date,
      ReviewSerializer_title, build_standard_field Review_score]"

definition ReviewSerializer_methods :: methods where
  "ReviewSerializer_methods = [(''validate_score'', validate_score)]"

text \<open>
  \<^verbatim>\<open>run_validation\<close> of the serializer: the fields, then \<^verbatim>\<open>validate\<close>, whose
  validation error is raised under the key \<^verbatim>\<open>non_field_errors\<close>.  \<^verbatim>\<open>Meta\<close>
  declares no validator of the whole serializer, and none is derived from
  \<^verbatim>\<open>Meta.constraints\<close> of the model.
\<close>

definition ReviewSerializer_run_validation ::
  "bool \<Rightarrow> db \<Rightarrow> request \<Rightarrow> (string \<times> pyval) list \<Rightarrow> error + (string \<times> pyval) list" where
  "ReviewSerializer_run_validation partial d request data =
     (case serializer_to_internal_value partial ReviewSerializer_methods
             ReviewSerializer_fields data of
        Inl e \<Rightarrow> Inl e
      | Inr value \<Rightarrow>
          (case validate d request value of
             Inl (ValidationError ds) \<Rightarrow> Inl (FieldErrors [(''non_field_errors'', ds)])
           | Inl e \<Rightarrow> Inl e
           | Inr value' \<Rightarrow> Inr value'))"

subsection \<open>Saving a review\<close>

text \<open>
  \<^verbatim>\<open>serializer.save(**kwargs)\<close> of a serializer without an instance: the keyword
  arguments are merged over the validated data, and \<^verbatim>\<open>ModelSerializer.create\<close>
  passes the result to \<^verbatim>\<open>Review.objects.create\<close>.  A related object is given by its
  primary key here.  A text that is not given is the empty string, a score that is not
  given is null, and the date is set by the database (\<^verbatim>\<open>auto_now_add\<close>); a row
  without title or author is refused.
\<close>

definition ModelSerializer_create :: "db \<Rightarrow> nat \<Rightarrow> (string \<times> pyval) list \<Rightarrow> error + db" where
  "ModelSerializer_create d now attrs =
     (case map_of attrs ''title'' of
        Some (PyInt t) \<Rightarrow>
          (case map_of attrs ''author'' of
             Some (PyInt a) \<Rightarrow>
               Review_objects_create d
                 \<lparr>Review.pk = 0, title = nat t,
                  text = (case map_of attrs ''text'' of Some (PyStr s) \<Rightarrow> s | _ \<Rightarrow> ''''),
                  author = nat a,
                  score = (case map_of attrs ''score'' of Some (PyInt n) \<Rightarrow> Some n | _ \<Rightarrow> None),
                  pub_date = now\<rparr>
           | _ \<Rightarrow> Inl IntegrityError)
      | _ \<Rightarrow> Inl IntegrityError)"

definition ReviewSerializer_save ::
  "db \<Rightarrow> nat \<Rightarrow> (string \<times> pyval) list \<Rightarrow> User \<Rightarrow> Title \<Rightarrow> error + db" where
  "ReviewSerializer_save d now validated_data author_obj title_obj =
     ModelSerializer_create d now
       ([(''author'', PyInt (int (User.pk author_obj))),
         (''title'', PyInt (int (Title.pk title_obj)))] @ validated_data)"

text \<open>
  Modelled from the spec: the view that creates a review (\<^verbatim>\<open>api/views.py\<close>) is not
  among the sources.  By sections 4.5 and 6 of the specification the author of a new
  review is the authenticated identity of the request and its title is the one that the
  identifier of the route names: the view validates the body with the serializer and
  saves with that user and that title.
\<close>

definition perform_create :: "db \<Rightarrow> nat \<Rightarrow> request \<Rightarrow> (string \<times> pyval) list \<Rightarrow> error + db" where
  "perform_create d now request data =
     (case ReviewSerializer_run_validation False d request data of
        Inl e \<Rightarrow> Inl e
      | Inr validated_data \<Rightarrow>
          (case get_object_or_404 (users d) (\<lambda>u. username u = user request) of
             Inl e \<Rightarrow> Inl e
           | Inr author_obj \<Rightarrow>
               (case get_object_or_404 (titles d)
                       (\<lambda>t. Some (Title.pk t) = map_of (kwargs request) ''title_id'') of
                  Inl e \<Rightarrow> Inl e
                | Inr title_obj \<Rightarrow>
                    ReviewSerializer_save d now validated_data author_obj title_obj)))"

subsection \<open>\<^verbatim>\<open>UserSerializer\<close> and \<^verbatim>\<open>RegisterDataSerializer\<close>: the user name\<close>

text \<open>
  Both classes declare \<^verbatim>\<open>username\<close> as a \<^verbatim>\<open>CharField\<close> with a
  \<^verbatim>\<open>UniqueValidator\<close> over all users.  \<^verbatim>\<open>RegisterDataSerializer\<close> has the method
  \<^verbatim>\<open>validate_username\<close>; \<^verbatim>\<open>UserSerializer\<close> has no method.
\<close>

definition UserSerializer_username :: "User list \<Rightarrow> User option \<Rightarrow> sfield" where
  "UserSerializer_username queryset instance =
     \<lparr>field_name = ''username'', cls = CharField, read_only = False, required = True,
      allow_null = False,
      validators = [UniqueValidator
         (map (\<lambda>u. PyStr (username u)) (exclude_current_instance User.pk instance queryset))]\<rparr>"

definition RegisterDataSerializer_username :: "User list \<Rightarrow> User option \<Rightarrow> sfield" where
  "RegisterDataSerializer_username queryset instance =
     \<lparr>field_name = ''username'', cls = CharField, read_only = False, required = True,
      allow_null = False,
      validators = [UniqueValidator
         (map (\<lambda>u. PyStr (username u)) (exclude_current_instance User.pk instance queryset))]\<rparr>"

definition UserSerializer_methods :: methods where
  "UserSerializer_methods = []"

definition RegisterDataSerializer_methods :: "string \<Rightarrow> methods" where
  "RegisterDataSerializer_methods VALIDATE_NAME =
     [(''validate_username'', validate_username VALIDATE_NAME)]"

subsection \<open>\<^verbatim>\<open>TitleSerializer\<close>\<close>

text \<open>
  The two methods of the class; \<^verbatim>\<open>datetime.datetime.now().year\<close> is the parameter
  \<open>current_year\<close>.  A comparison of a value that is no integer with an integer raises
  \<^verbatim>\<open>TypeError\<close>.
\<close>

definition validator_year :: "int \<Rightarrow> pyval \<Rightarrow> error + pyval" where
  "validator_year current_year value =
     (case value of
        PyInt y \<Rightarrow>
          if y > current_year then Inl (ValidationError [Not_a_correct_year]) else Inr value
      | _ \<Rightarrow> Inl TypeError)"

definition validate_rating :: "pyval \<Rightarrow> error + pyval" where
  "validate_rating value =
     (case value of
        PyInt n \<Rightarrow> if n < 1 \<or> n > 10 then Inl (ValidationError [Invalid_value]) else Inr value
      | _ \<Rightarrow> Inl TypeError)"

definition TitleSerializer_methods :: "int \<Rightarrow> methods" where
  "TitleSerializer_methods current_year =
     [(''validator_year'', validator_year current_year), (''validate_rating'', validate_rating)]"

text \<open>
  Modelled from the spec: \<^verbatim>\<open>reviews/validators.py\<close>, which defines the validator
  \<^verbatim>\<open>validate_year\<close> of the model field \<^verbatim>\<open>Title.year\<close>, is not among the sources.
  By sections 3 and 4.3 of the specification a year greater than the current calendar
  year, read when the value is validated, is rejected with a validation error, and no
  other year is.
\<close>

definition validate_year :: "int \<Rightarrow> pyval \<Rightarrow> error option" where
  "validate_year current_year value =
     (case value of
        PyInt y \<Rightarrow> if y > current_year then Some (ValidationError [Year_in_future]) else None
      | _ \<Rightarrow> Some TypeError)"

text \<open>
  \<^verbatim>\<open>Title.year\<close>, with \<^verbatim>\<open>validators=(validate_year, )\<close>.  The bounds that the
  database backend gives a \<^verbatim>\<open>PositiveSmallIntegerField\<close> are no part of the year
  check and are left out.
\<close>

definition Title_year :: "int \<Rightarrow> model_field" where
  "Title_year current_year =
     \<lparr>mf_name = ''year'', mf_class = IntegerField, mf_null = False, mf_blank = False,
      mf_has_default = False, mf_editable = True, mf_choices = None,
      mf_validators = [validate_year current_year]\<rparr>"

text \<open>
  \<^verbatim>\<open>TitleSerializer.Meta.validators\<close>:
  \<^verbatim>\<open>UniqueTogetherValidator(queryset=Title.objects.all(), fields=('name', 'year'))\<close>.
  The validator of the framework, on the validated data \<open>attrs\<close> of a serializer with
  or without an instance: without an instance every field of the validator must be in
  the data; with an instance a field that is not in the data has the value of the
  instance.  The rows of the queryset that hold these values are looked up, the
  instance itself is left out, and a row that remains is an error unless one of the
  values looked up is null.
\<close>

definition Title_values :: "Title \<Rightarrow> (string \<times> pyval) list" where
  "Title_values t =
     [(''id'', PyInt (int (Title.pk t))),
      (''name'', PyStr (Title.name t)),
      (''year'', PyInt (year t)),
      (''description'', (case description t of None \<Rightarrow> PyNone | Some s \<Rightarrow> PyStr s)),
      (''rating'', (case rating t of None \<Rightarrow> PyNone | Some n \<Rightarrow> PyInt n)),
      (''category'', (case category t of None \<Rightarrow> PyNone | Some c \<Rightarrow> PyInt (int c)))]"

definition UniqueTogetherValidator ::
  "('r \<Rightarrow> (string \<times> pyval) list) \<Rightarrow> ('r \<Rightarrow> nat) \<Rightarrow> 'r list \<Rightarrow> string list \<Rightarrow> 'r option
    \<Rightarrow> (string \<times> pyval) list \<Rightarrow> error option" where
  "UniqueTogetherValidator values key queryset field_names instance attrs =
     (let missing = filter (\<lambda>f. map_of attrs f = None) field_names;
          wanted = map (\<lambda>f. case map_of attrs f of
                               Some v \<Rightarrow> Some v
                             | None \<Rightarrow> (case instance of
                                          Some i \<Rightarrow> map_of (values i) f
                                        | None \<Rightarrow> None)) field_names;
          matching = filter (\<lambda>row. map (map_of (values row)) field_names = wanted) queryset;
          others = exclude_current_instance key instance matching
      in case instance of
           None \<Rightarrow>
             if missing \<noteq> [] then Some (FieldErrors (map (\<lambda>f. (f, [Required])) missing))
             else if Some PyNone \<notin> set wanted \<and> others \<noteq> []
             then Some (ValidationError [Unique_together]) else None
         | Some i \<Rightarrow>
             if Some PyNone \<notin> set wanted \<and> others \<noteq> []
             then Some (ValidationError [Unique_together]) else None)"

definition TitleSerializer_Meta_validator ::
  "db \<Rightarrow> Title option \<Rightarrow> (string \<times> pyval) list \<Rightarrow> error option" where
  "TitleSerializer_Meta_validator d instance attrs =
     UniqueTogetherValidator Title_values Title.pk (titles d) [''name'', ''year''] instance attrs"


definition example_forged :: "(string \<times> pyval) list" where
  "example_forged =
     [(''author'', PyStr ''ann''), (''text'', PyStr ''fine''), (''title'', PyInt 2),
      (''score'', PyInt 7)]"

definition example_plain :: "(string \<times> pyval) list" where
  "example_plain = [(''text'', PyStr ''fine''), (''score'', PyInt 7)]"

section \<open>Properties\<close>

text \<open>
  C10. For every user, \<open>is_admin\<close> holds exactly when the role is \<^verbatim>\<open>'admin'\<close> or the
  staff flag or the superuser flag is set.  So a user whose role is \<^verbatim>\<open>'user'\<close> or
  \<^verbatim>\<open>'moderator'\<close> is an admin as soon as one of the two flags is set, whatever the
  role, and is none when neither flag is set.
\<close>

theorem is_admin_iff:
  "(is_admin u \<longleftrightarrow> User.role u = ''admin'' \<or> is_staff u \<or> is_superuser u)
   \<and> (User.role u \<in> {USER, MODERATOR} \<and> (is_staff u \<or> is_superuser u) \<longrightarrow> is_admin u)
   \<and> (User.role u \<in> {USER, MODERATOR} \<and> \<not> is_staff u \<and> \<not> is_superuser u
        \<longrightarrow> \<not> is_admin u)
   \<and> is_admin (u\<lparr>User.role := r, is_staff := True\<rparr>)
   \<and> is_admin (u\<lparr>User.role := r, is_superuser := True\<rparr>)"
  by (auto simp: is_admin_def ADMIN_def USER_def MODERATOR_def)

theorem is_admin_iff_witness:
  "is_admin \<lparr>User.pk = 1, username = ''ann'', email = ''ann@example.org'', bio = None,
      role = USER, first_name = '''', last_name = '''', confirmation_code = ''c'',
      is_staff = True, is_superuser = False\<rparr>
   \<and> \<not> is_admin \<lparr>User.pk = 2, username = ''bob'', email = ''bob@example.org'', bio = None,
      role = MODERATOR, first_name = '''', last_name = '''', confirmation_code = ''c'',
      is_staff = False, is_superuser = False\<rparr>"
  using is_admin_iff [of "\<lparr>User.pk = 1, username = ''ann'', email = ''ann@example.org'',
      bio = None, role = USER, first_name = '''', last_name = '''', confirmation_code = ''c'',
      is_staff = True, is_superuser = False\<rparr>"]
    is_admin_iff [of "\<lparr>User.pk = 2, username = ''bob'', email = ''bob@example.org'',
      bio = None, role = MODERATOR, first_name = '''', last_name = '''',
      confirmation_code = ''c'', is_staff = False, is_superuser = False\<rparr>"]
  by (simp add: USER_def MODERATOR_def)

subsection \<open>Rating\<close>

lemma Avg_all_some:
  "ss \<noteq> [] \<Longrightarrow> Avg (map Some ss) = Some (of_int (sum_list ss) / of_nat (length ss))"
  by (simp add: Avg_def List.map_filter_def comp_def)

lemma map_filter_of_map: "List.map_filter (\<lambda>v. v) (map f xs) = List.map_filter f xs"
  by (induction xs) (simp_all split: option.splits)

lemma Avg_Nil: "Avg [] = None"
  by (simp add: Avg_def List.map_filter_def)

text \<open>
  C1. The rating of the read representation is the mean of the scores of the reviews
  that refer to the title (of those that have a score: the column is nullable and the
  aggregate skips nulls).  It is null when no review refers to the title; when every
  review of the title has a score, it is the sum of the scores divided by their number,
  so scores 8, 10 give 9 and scores 1, 2, 3 give 2.  The value is computed from the
  review table alone: neither the \<open>rating\<close> stored in the title nor the title table has
  any influence on it.
\<close>

theorem get_rating_mean:
  "get_rating d obj =
     (let ss = List.map_filter Review.score
                 (filter (\<lambda>r. Review.title r = Title.pk obj) (reviews d))
      in if ss = [] then None else Some (of_int (sum_list ss) / of_nat (length ss)))
   \<and> ((\<forall>r \<in> set (reviews d). Review.title r \<noteq> Title.pk obj) \<longrightarrow> get_rating d obj = None)
   \<and> (map Review.score (filter (\<lambda>r. Review.title r = Title.pk obj) (reviews d)) = map Some ss
        \<and> ss \<noteq> [] \<longrightarrow>
       get_rating d obj = Some (of_int (sum_list ss) / of_nat (length ss)))
   \<and> (map Review.score (filter (\<lambda>r. Review.title r = Title.pk obj) (reviews d))
         = [Some 8, Some 10] \<longrightarrow> get_rating d obj = Some 9)
   \<and> (map Review.score (filter (\<lambda>r. Review.title r = Title.pk obj) (reviews d))
         = [Some 1, Some 2, Some 3] \<longrightarrow> get_rating d obj = Some 2)
   \<and> get_rating d (obj\<lparr>rating := x\<rparr>) = get_rating d obj
   \<and> get_rating (d\<lparr>titles := ts\<rparr>) obj = get_rating d obj"
proof -
  let ?col = "map Review.score (filter (\<lambda>r. Review.title r = Title.pk obj) (reviews d))"
  have a: "get_rating d obj =
     (let ss = List.map_filter Review.score
                 (filter (\<lambda>r. Review.title r = Title.pk obj) (reviews d))
      in if ss = [] then None else Some (of_int (sum_list ss) / of_nat (length ss)))"
    by (simp add: get_rating_def Avg_def map_filter_of_map)
  have b: "(\<forall>r \<in> set (reviews d). Review.title r \<noteq> Title.pk obj) \<longrightarrow> get_rating d obj = None"
  proof
    assume "\<forall>r \<in> set (reviews d). Review.title r \<noteq> Title.pk obj"
    then have "filter (\<lambda>r. Review.title r = Title.pk obj) (reviews d) = []"
      by (simp add: filter_empty_conv)
    then show "get_rating d obj = None"
      by (simp add: get_rating_def Avg_Nil)
  qed
  have c: "?col = map Some ss \<and> ss \<noteq> [] \<longrightarrow>
       get_rating d obj = Some (of_int (sum_list ss) / of_nat (length ss))"
    using Avg_all_some [of ss] by (simp add: get_rating_def)
  have e: "?col = [Some 8, Some 10] \<longrightarrow> get_rating d obj = Some 9"
    using Avg_all_some [of "[8, 10]"] by (simp add: get_rating_def)
  have f: "?col = [Some 1, Some 2, Some 3] \<longrightarrow> get_rating d obj = Some 2"
    using Avg_all_some [of "[1, 2, 3]"] by (simp add: get_rating_def)
  have g: "get_rating d (obj\<lparr>rating := x\<rparr>) = get_rating d obj"
    by (simp add: get_rating_def)
  have h: "get_rating (d\<lparr>titles := ts\<rparr>) obj = get_rating d obj"
    by (simp add: get_rating_def)
  from a b c e f g h show ?thesis by blast
qed

theorem get_rating_mean_witness:
  "get_rating example_db (example_titles ! 0) = Some 9
   \<and> get_rating example_db (example_titles ! 1) = Some 2
   \<and> get_rating example_db (example_titles ! 2) = None"
proof -
  have c1: "map Review.score
      (filter (\<lambda>r. Review.title r = Title.pk (example_titles ! 0)) (reviews example_db))
      = [Some 8, Some 10]"
    by (simp add: example_db_def example_titles_def example_reviews_def)
  have c2: "map Review.score
      (filter (\<lambda>r. Review.title r = Title.pk (example_titles ! 1)) (reviews example_db))
      = [Some 1, Some 2, Some 3]"
    by (simp add: example_db_def example_titles_def example_reviews_def)
  have c3: "\<forall>r \<in> set (reviews example_db). Review.title r \<noteq> Title.pk (example_titles ! 2)"
    by (simp add: example_db_def example_titles_def example_reviews_def)
  have r1: "get_rating example_db (example_titles ! 0) = Some 9"
    using get_rating_mean [of example_db "example_titles ! 0" "[]" None "[]"] c1
    by (elim conjE) (rule mp)
  have r2: "get_rating example_db (example_titles ! 1) = Some 2"
    using get_rating_mean [of example_db "example_titles ! 1" "[]" None "[]"] c2
    by (elim conjE) (rule mp)
  have r3: "get_rating example_db (example_titles ! 2) = None"
    using get_rating_mean [of example_db "example_titles ! 2" "[]" None "[]"] c3
    by (elim conjE) (rule mp)
  from r1 r2 r3 show ?thesis by simp
qed

subsection \<open>Deletion\<close>

lemma reviews_delete_Comments: "reviews (delete_Comments doomed d) = reviews d"
  by (simp add: delete_Comments_def)

lemma titles_delete_Comments: "titles (delete_Comments doomed d) = titles d"
  by (simp add: delete_Comments_def)

lemma comments_delete_Comments:
  "comments (delete_Comments doomed d) = filter (\<lambda>c. \<not> doomed c) (comments d)"
  by (simp add: delete_Comments_def)

lemma reviews_delete_Reviews:
  "reviews (delete_Reviews doomed d) = filter (\<lambda>r. \<not> doomed r) (reviews d)"
  by (simp add: delete_Reviews_def Let_def reviews_delete_Comments)

lemma titles_delete_Reviews: "titles (delete_Reviews doomed d) = titles d"
  by (simp add: delete_Reviews_def Let_def titles_delete_Comments)

lemma comments_delete_Reviews:
  "comments (delete_Reviews doomed d) =
     filter (\<lambda>c. Comment.review c \<notin> Review.pk ` {r \<in> set (reviews d). doomed r}) (comments d)"
  by (simp add: delete_Reviews_def Let_def comments_delete_Comments)

text \<open>
  C7. Deleting a category deletes no title: the titles keep their keys and order, those
  that referred to the category have a null category afterwards, and every other field
  and every other title is as before.  Deleting a title deletes exactly the reviews that
  refer to it, and the comments on those reviews.  Deleting a review deletes the
  comments that refer to it.  Deleting a user deletes the reviews and the comments
  written by that user.
\<close>

theorem delete_semantics:
  "map Title.pk (titles (delete_Category category_id d)) = map Title.pk (titles d)
   \<and> (\<forall>t \<in> set (titles (delete_Category category_id d)). category t \<noteq> Some category_id)
   \<and> titles (delete_Category category_id d) =
       map (\<lambda>t. if category t = Some category_id then t\<lparr>category := None\<rparr> else t) (titles d)
   \<and> reviews (delete_Category category_id d) = reviews d
   \<and> reviews (delete_Title title_id d) = filter (\<lambda>r. Review.title r \<noteq> title_id) (reviews d)
   \<and> (\<forall>r \<in> set (reviews (delete_Title title_id d)). Review.title r \<noteq> title_id)
   \<and> (\<forall>c \<in> set (comments (delete_Title title_id d)). \<forall>r \<in> set (reviews d).
         Review.pk r = Comment.review c \<longrightarrow> Review.title r \<noteq> title_id)
   \<and> (\<forall>t \<in> set (titles (delete_Title title_id d)). Title.pk t \<noteq> title_id)
   \<and> (\<forall>r \<in> set (reviews (delete_Review review_id d)). Review.pk r \<noteq> review_id)
   \<and> (\<forall>c \<in> set (comments (delete_Review review_id d)). Comment.review c \<noteq> review_id)
   \<and> (\<forall>r \<in> set (reviews (delete_User user_id d)). Review.author r \<noteq> user_id)
   \<and> (\<forall>c \<in> set (comments (delete_User user_id d)). Comment.author c \<noteq> user_id)"
proof -
  have c1: "map Title.pk (titles (delete_Category category_id d)) = map Title.pk (titles d)"
    by (simp add: delete_Category_def comp_def if_distrib [of Title.pk])
  have c2: "\<forall>t \<in> set (titles (delete_Category category_id d)). category t \<noteq> Some category_id"
    by (auto simp: delete_Category_def split: if_splits)
  have c3: "titles (delete_Category category_id d) =
       map (\<lambda>t. if category t = Some category_id then t\<lparr>category := None\<rparr> else t) (titles d)"
    by (simp add: delete_Category_def)
  have c4: "reviews (delete_Category category_id d) = reviews d"
    by (simp add: delete_Category_def)
  have t1: "reviews (delete_Title title_id d)
              = filter (\<lambda>r. Review.title r \<noteq> title_id) (reviews d)"
    by (simp add: delete_Title_def reviews_delete_Reviews)
  have t2: "\<forall>r \<in> set (reviews (delete_Title title_id d)). Review.title r \<noteq> title_id"
    by (simp add: t1)
  have t3: "\<forall>c \<in> set (comments (delete_Title title_id d)). \<forall>r \<in> set (reviews d).
         Review.pk r = Comment.review c \<longrightarrow> Review.title r \<noteq> title_id"
    by (force simp: delete_Title_def comments_delete_Reviews)
  have t4: "\<forall>t \<in> set (titles (delete_Title title_id d)). Title.pk t \<noteq> title_id"
    by (simp add: delete_Title_def titles_delete_Reviews)
  have r1: "\<forall>r \<in> set (reviews (delete_Review review_id d)). Review.pk r \<noteq> review_id"
    by (simp add: delete_Review_def reviews_delete_Comments)
  have r2: "\<forall>c \<in> set (comments (delete_Review review_id d)). Comment.review c \<noteq> review_id"
    by (simp add: delete_Review_def comments_delete_Comments)
  have u1: "\<forall>r \<in> set (reviews (delete_User user_id d)). Review.author r \<noteq> user_id"
    by (simp add: delete_User_def reviews_delete_Comments reviews_delete_Reviews)
  have u2: "\<forall>c \<in> set (comments (delete_User user_id d)). Comment.author c \<noteq> user_id"
    by (simp add: delete_User_def comments_delete_Comments)
  from c1 c2 c3 c4 t1 t2 t3 t4 r1 r2 u1 u2 show ?thesis
    by (intro conjI)
qed

theorem delete_semantics_witness:
  "map Title.pk (titles (delete_Category 1 example_db)) = [1, 2, 3]
   \<and> map category (titles (delete_Category 1 example_db)) = [None, None, None]
   \<and> map Review.pk (reviews (delete_Title 2 example_db)) = [1, 3]
   \<and> map Comment.pk (comments (delete_Title 2 example_db)) = [1, 3]
   \<and> map Comment.pk (comments (delete_Review 1 example_db)) = [2, 3]
   \<and> map Review.pk (reviews (delete_User 1 example_db)) = [3, 4, 5]
   \<and> map Comment.pk (comments (delete_User 1 example_db)) = []"
proof -
  note th = delete_semantics [of 1 example_db 2 1 1]
  have a: "map Title.pk (titles (delete_Category 1 example_db)) = [1, 2, 3]"
    using th by (simp add: example_db_def example_titles_def)
  have b: "map category (titles (delete_Category 1 example_db)) = [None, None, None]"
    using th by (simp add: example_db_def example_titles_def)
  have c: "map Review.pk (reviews (delete_Title 2 example_db)) = [1, 3]"
    using th by (simp add: example_db_def example_reviews_def)
  have e: "map Comment.pk (comments (delete_Title 2 example_db)) = [1, 3]"
    by (simp add: delete_Title_def delete_Reviews_def delete_Comments_def example_db_def
        example_reviews_def example_comments_def)
  have f: "map Comment.pk (comments (delete_Review 1 example_db)) = [2, 3]"
    by (simp add: delete_Review_def delete_Comments_def example_db_def
        example_reviews_def example_comments_def)
  have g: "map Review.pk (reviews (delete_User 1 example_db)) = [3, 4, 5]"
    by (simp add: delete_User_def delete_Reviews_def delete_Comments_def example_db_def
        example_reviews_def example_comments_def)
  have h: "map Comment.pk (comments (delete_User 1 example_db)) = []"
    by (simp add: delete_User_def delete_Reviews_def delete_Comments_def example_db_def
        example_reviews_def example_comments_def)
  from a b c e f g h show ?thesis by (intro conjI)
qed

subsection \<open>One review for each author and title\<close>

lemma violates_Review:
  "(\<exists>c \<in> set Review_Meta_constraints. violates Review_values rows c r)
     \<longleftrightarrow> (\<exists>old \<in> set rows. Review.title old = Review.title r \<and> Review.author old = Review.author r)"
  by (simp add: Review_Meta_constraints_def violates_def Review_values_def)

lemma fold_max_ge: "(a::nat) \<le> fold max xs a"
  by (induction xs arbitrary: a) (auto intro: order_trans [OF max.cobounded2])

lemma fold_max_mem: "x \<in> set xs \<Longrightarrow> (x::nat) \<le> fold max xs a"
proof (induction xs arbitrary: a)
  case Nil
  then show ?case by simp
next
  case (Cons y ys)
  show ?case
  proof (cases "x = y")
    case True
    have "y \<le> max y a" by simp
    also have "\<dots> \<le> fold max ys (max y a)" by (rule fold_max_ge)
    finally show ?thesis using True by simp
  next
    case False
    with Cons.prems have "x \<in> set ys" by simp
    then show ?thesis using Cons.IH by simp
  qed
qed

lemma next_pk_fresh: "next_pk pks \<notin> set pks"
proof
  assume "next_pk pks \<in> set pks"
  then have "next_pk pks \<le> fold max pks 0" by (rule fold_max_mem)
  then show False by (simp add: next_pk_def)
qed

lemma unique_review_create:
  assumes "unique_review d" and "Review_objects_create d r = Inr d'"
  shows "unique_review d'"
proof -
  from assms(2) have nv: "\<not> (\<exists>old \<in> set (reviews d).
      Review.title old = Review.title r \<and> Review.author old = Review.author r)"
    and d': "d' = d\<lparr>reviews := reviews d @ [r\<lparr>Review.pk := next_pk (map Review.pk (reviews d))\<rparr>]\<rparr>"
    by (auto simp: Review_objects_create_def violates_Review split: if_splits)
  from nv have "(Review.title r, Review.author r)
      \<notin> set (map (\<lambda>r. (Review.title r, Review.author r)) (reviews d))"
    by auto
  with assms(1) next_pk_fresh [of "map Review.pk (reviews d)"] show ?thesis
    by (simp add: unique_review_def d')
qed

lemma map_key_replace: "map (\<lambda>x. k (if k x = k r then r else x)) xs = map k xs"
  by (induction xs) auto

lemma distinct_replace:
  assumes "distinct (map k xs)" and "distinct (map f xs)"
    and "\<forall>x \<in> set xs. k x \<noteq> k r \<longrightarrow> f x \<noteq> f r"
  shows "distinct (map (\<lambda>x. f (if k x = k r then r else x)) xs)"
  using assms
proof (induction xs)
  case Nil
  then show ?case by simp
next
  case (Cons x xs)
  from Cons have IH: "distinct (map (\<lambda>x. f (if k x = k r then r else x)) xs)"
    by simp
  show ?case
  proof (cases "k x = k r")
    case True
    from Cons.prems(1) have "k x \<notin> k ` set xs" by simp
    with True have others: "\<forall>y \<in> set xs. k y \<noteq> k r" by (metis imageI)
    then have same: "(\<lambda>x. f (if k x = k r then r else x)) ` set xs = f ` set xs"
      by (intro image_cong) auto
    from others Cons.prems(3) have "f r \<notin> f ` set xs" by auto
    with same have "f r \<notin> (\<lambda>x. f (if k x = k r then r else x)) ` set xs" by simp
    with IH True show ?thesis by simp
  next
    case False
    have "f x \<notin> (\<lambda>y. f (if k y = k r then r else y)) ` set xs"
    proof
      assume "f x \<in> (\<lambda>y. f (if k y = k r then r else y)) ` set xs"
      then obtain y where y: "y \<in> set xs" "f x = f (if k y = k r then r else y)"
        by auto
      show False
      proof (cases "k y = k r")
        case True
        with y have "f x = f r" by simp
        with Cons.prems(3) False show False by simp
      next
        case no: False
        with y have "f x = f y" by simp
        with y(1) have "f x \<in> f ` set xs" by simp
        with Cons.prems(2) show False by simp
      qed
    qed
    with IH False show ?thesis by simp
  qed
qed

lemma unique_review_save:
  assumes "unique_review d" and "Review_save d r = Inr d'"
  shows "unique_review d'"
proof (cases "Review.pk r \<in> Review.pk ` set (reviews d)")
  case True
  with assms(2) have nv: "\<forall>old \<in> set (reviews d). Review.pk old \<noteq> Review.pk r \<longrightarrow>
      (Review.title old, Review.author old) \<noteq> (Review.title r, Review.author r)"
    and d': "d' = d\<lparr>reviews := map (\<lambda>old. if Review.pk old = Review.pk r then r else old)
                                   (reviews d)\<rparr>"
    by (auto simp: Review_save_def violates_Review split: if_splits)
  have keys: "distinct (map (\<lambda>x. (\<lambda>r. (Review.title r, Review.author r))
      (if Review.pk x = Review.pk r then r else x)) (reviews d))"
    using assms(1) nv
    by (intro distinct_replace) (simp_all add: unique_review_def)
  from assms(1) keys show ?thesis
    by (simp add: unique_review_def d' comp_def map_key_replace)
next
  case False
  then have "\<forall>old \<in> set (reviews d). Review.pk old \<noteq> Review.pk r"
    by (metis imageI)
  then have all: "filter (\<lambda>old. Review.pk old \<noteq> Review.pk r) (reviews d) = reviews d"
    by (simp add: filter_id_conv)
  from False assms(2) have nv: "\<not> (\<exists>old \<in> set (reviews d).
      Review.title old = Review.title r \<and> Review.author old = Review.author r)"
    and d': "d' = d\<lparr>reviews := reviews d @ [r]\<rparr>"
    by (auto simp: Review_save_def violates_Review all split: if_splits)
  from nv have "(Review.title r, Review.author r)
      \<notin> set (map (\<lambda>r. (Review.title r, Review.author r)) (reviews d))"
    by auto
  with assms(1) False show ?thesis
    by (simp add: unique_review_def d')
qed

lemma at_most_one: "distinct (map f xs) \<Longrightarrow> length (filter (\<lambda>x. f x = k) xs) \<le> 1"
proof (induction xs)
  case Nil
  then show ?case by simp
next
  case (Cons x xs)
  show ?case
  proof (cases "f x = k")
    case True
    from Cons.prems have "f x \<notin> f ` set xs" by simp
    with True have "\<forall>y \<in> set xs. f y \<noteq> k" by (metis imageI)
    then have "filter (\<lambda>x. f x = k) xs = []" by (simp add: filter_empty_conv)
    with True show ?thesis by simp
  next
    case False
    with Cons show ?thesis by simp
  qed
qed


lemma reachable_unique_review: "reachable d \<Longrightarrow> unique_review d"
proof (induction rule: reachable.induct)
  case (init d)
  then show ?case by (simp add: unique_review_def)
next
  case (create d r d')
  then show ?case by (blast intro: unique_review_create)
next
  case (save d r d')
  then show ?case by (blast intro: unique_review_save)
next
  case (delete_review d review_id)
  then show ?case
    by (simp add: unique_review_def delete_Review_def delete_Comments_def distinct_map_filter)
next
  case (delete_title d title_id)
  then show ?case
    by (simp add: unique_review_def delete_Title_def delete_Reviews_def delete_Comments_def
        distinct_map_filter)
next
  case (delete_user d user_id)
  then show ?case
    by (simp add: unique_review_def delete_User_def delete_Reviews_def delete_Comments_def
        distinct_map_filter)
next
  case (other d d')
  then show ?case by (simp add: unique_review_def)
qed

text \<open>
  C2. One review for each pair of author and title.  When the method is
  \<^verbatim>\<open>POST\<close> and the table holds a review by the acting user for the title of the
  route, \<^verbatim>\<open>validate\<close> raises a validation error; when no such review exists it
  returns the data.  With any other method (an update) \<^verbatim>\<open>validate\<close> returns the
  data without looking at the table, so the serializer accepts whatever its fields
  accept.  The table itself refuses a second row with the
  same title and author, and so every state of the database that inserting, saving and
  deleting can reach holds at most one review for each pair.
\<close>

theorem one_review_per_author_and_title:
  "(method request = ''POST''
      \<and> get_object_or_404 (users d) (\<lambda>u. username u = user request) = Inr a
      \<and> get_object_or_404 (titles d)
            (\<lambda>t. Some (Title.pk t) = map_of (kwargs request) ''title_id'') = Inr t
      \<longrightarrow> validate d request data =
            (if \<exists>r \<in> set (reviews d). Review.title r = Title.pk t \<and> Review.author r = User.pk a
             then Inl (ValidationError [Only_one_review]) else Inr data))
   \<and> (method request \<noteq> ''POST'' \<longrightarrow> validate d request data = Inr data)
   \<and> (method request \<noteq> ''POST'' \<longrightarrow>
        ReviewSerializer_run_validation partial d request body
          = serializer_to_internal_value partial ReviewSerializer_methods
              ReviewSerializer_fields body)
   \<and> ((\<exists>old \<in> set (reviews d).
          Review.title old = Review.title r \<and> Review.author old = Review.author r)
        \<longrightarrow> Review_objects_create d r = Inl IntegrityError)
   \<and> (reachable d \<longrightarrow>
        (\<forall>a t. length (filter (\<lambda>r. (Review.title r, Review.author r) = (t, a)) (reviews d)) \<le> 1))"
proof -
  have p: "method request = ''POST''
      \<and> get_object_or_404 (users d) (\<lambda>u. username u = user request) = Inr a
      \<and> get_object_or_404 (titles d)
            (\<lambda>t. Some (Title.pk t) = map_of (kwargs request) ''title_id'') = Inr t
      \<longrightarrow> validate d request data =
            (if \<exists>r \<in> set (reviews d). Review.title r = Title.pk t \<and> Review.author r = User.pk a
             then Inl (ValidationError [Only_one_review]) else Inr data)"
    by (simp add: validate_def)
  have u: "method request \<noteq> ''POST'' \<longrightarrow> validate d request data = Inr data"
    by (simp add: validate_def)
  have s: "method request \<noteq> ''POST'' \<longrightarrow>
        ReviewSerializer_run_validation partial d request body
          = serializer_to_internal_value partial ReviewSerializer_methods
              ReviewSerializer_fields body"
    by (simp add: ReviewSerializer_run_validation_def validate_def split: sum.splits)
  have c: "(\<exists>old \<in> set (reviews d).
          Review.title old = Review.title r \<and> Review.author old = Review.author r)
        \<longrightarrow> Review_objects_create d r = Inl IntegrityError"
    by (simp add: Review_objects_create_def violates_Review)
  have i: "reachable d \<longrightarrow>
        (\<forall>a t. length (filter (\<lambda>r. (Review.title r, Review.author r) = (t, a)) (reviews d)) \<le> 1)"
  proof (intro impI allI)
    fix a t
    assume "reachable d"
    then have "distinct (map (\<lambda>r. (Review.title r, Review.author r)) (reviews d))"
      using reachable_unique_review by (simp add: unique_review_def)
    then show "length (filter (\<lambda>r. (Review.title r, Review.author r) = (t, a)) (reviews d)) \<le> 1"
      by (rule at_most_one)
  qed
  from p u s c i show ?thesis by (intro conjI)
qed

theorem one_review_per_author_and_title_witness:
  "validate example_db example_post example_data = Inl (ValidationError [Only_one_review])
   \<and> validate example_db (example_post\<lparr>user := ''eve''\<rparr>) example_data = Inr example_data
   \<and> validate example_db example_patch example_data = Inr example_data
   \<and> ReviewSerializer_run_validation True example_db example_patch [(''score'', PyInt 9)]
       = Inr [(''score'', PyInt 9)]
   \<and> Review_objects_create example_db
        \<lparr>Review.pk = 0, title = 1, text = ''again'', author = 1, score = Some 5, pub_date = 30\<rparr>
       = Inl IntegrityError
   \<and> reachable example_db
   \<and> (\<forall>a t. length (filter (\<lambda>r. (Review.title r, Review.author r) = (t, a))
                      (reviews example_db)) \<le> 1)"
proof -
  have ann: "get_object_or_404 (users example_db) (\<lambda>u. username u = ''ann'')
      = Inr (example_users ! 0)"
    by (simp add: get_object_or_404_def example_db_def example_users_def)
  have eve: "get_object_or_404 (users example_db) (\<lambda>u. username u = ''eve'')
      = Inr (example_users ! 2)"
    by (simp add: get_object_or_404_def example_db_def example_users_def)
  have dune: "get_object_or_404 (titles example_db) (\<lambda>t. Some (Title.pk t) = Some 1)
      = Inr (example_titles ! 0)"
    by (simp add: get_object_or_404_def example_db_def example_titles_def)
  have v1: "validate example_db example_post example_data = Inl (ValidationError [Only_one_review])"
    using one_review_per_author_and_title
      [of example_post example_db "example_users ! 0" "example_titles ! 0" example_data True
        "[(''score'', PyInt 9)]" "example_reviews ! 0"] ann dune
    by (simp add: example_post_def example_db_def example_reviews_def example_users_def
        example_titles_def)
  have v2: "validate example_db (example_post\<lparr>user := ''eve''\<rparr>) example_data = Inr example_data"
    using one_review_per_author_and_title
      [of "example_post\<lparr>user := ''eve''\<rparr>" example_db "example_users ! 2"
        "example_titles ! 0" example_data True "[(''score'', PyInt 9)]" "example_reviews ! 0"] eve dune
    by (simp add: example_post_def example_db_def example_reviews_def example_users_def
        example_titles_def)
  have v3: "validate example_db example_patch example_data = Inr example_data"
    using one_review_per_author_and_title [of example_patch example_db "example_users ! 0"
        "example_titles ! 0" example_data True "[(''score'', PyInt 9)]" "example_reviews ! 0"]
    by (simp add: example_patch_def)
  have f9: "serializer_to_internal_value True ReviewSerializer_methods ReviewSerializer_fields
      [(''score'', PyInt 9)] = Inr [(''score'', PyInt 9)]"
    by code_simp
  have v3': "ReviewSerializer_run_validation True example_db example_patch [(''score'', PyInt 9)]
       = Inr [(''score'', PyInt 9)]"
    using one_review_per_author_and_title [of example_patch example_db "example_users ! 0"
        "example_titles ! 0" example_data True "[(''score'', PyInt 9)]" "example_reviews ! 0"] f9
    by (simp add: example_patch_def)
  have v4: "Review_objects_create example_db
        \<lparr>Review.pk = 0, title = 1, text = ''again'', author = 1, score = Some 5, pub_date = 30\<rparr>
       = Inl IntegrityError"
    using one_review_per_author_and_title [of example_post example_db "example_users ! 0"
        "example_titles ! 0" example_data True "[(''score'', PyInt 9)]"
        "\<lparr>Review.pk = 0, title = 1, text = ''again'', author = 1, score = Some 5, pub_date = 30\<rparr>"]
    by (simp add: example_db_def example_reviews_def)
  have r0: "reachable (example_db\<lparr>reviews := []\<rparr>)"
    by (rule reachable.init) simp
  have r1: "reachable (example_db\<lparr>reviews := take 1 example_reviews\<rparr>)"
    by (rule reachable.create [OF r0, of "example_reviews ! 0"])
      (simp add: Review_objects_create_def violates_Review next_pk_def example_db_def
        example_reviews_def example_titles_def example_users_def)
  have r2: "reachable (example_db\<lparr>reviews := take 2 example_reviews\<rparr>)"
    by (rule reachable.create [OF r1, of "example_reviews ! 1"])
      (simp add: Review_objects_create_def violates_Review next_pk_def example_db_def
        example_reviews_def example_titles_def example_users_def)
  have r3: "reachable (example_db\<lparr>reviews := take 3 example_reviews\<rparr>)"
    by (rule reachable.create [OF r2, of "example_reviews ! 2"])
      (simp add: Review_objects_create_def violates_Review next_pk_def example_db_def
        example_reviews_def example_titles_def example_users_def)
  have r4: "reachable (example_db\<lparr>reviews := take 4 example_reviews\<rparr>)"
    by (rule reachable.create [OF r3, of "example_reviews ! 3"])
      (simp add: Review_objects_create_def violates_Review next_pk_def example_db_def
        example_reviews_def example_titles_def example_users_def)
  have r5: "reachable (example_db\<lparr>reviews := take 5 example_reviews\<rparr>)"
    by (rule reachable.create [OF r4, of "example_reviews ! 4"])
      (simp add: Review_objects_create_def violates_Review next_pk_def example_db_def
        example_reviews_def example_titles_def example_users_def)
  have "example_db\<lparr>reviews := take 5 example_reviews\<rparr> = example_db"
    by (simp add: example_db_def example_reviews_def)
  with r5 have r: "reachable example_db" by simp
  have v5: "\<forall>a t. length (filter (\<lambda>r. (Review.title r, Review.author r) = (t, a))
                      (reviews example_db)) \<le> 1"
    using one_review_per_author_and_title [of example_post example_db "example_users ! 0"
        "example_titles ! 0" example_data True "[(''score'', PyInt 9)]" "example_reviews ! 0"] r
    by (elim conjE) (rule mp)
  from v1 v2 v3 v3' v4 r v5 show ?thesis by (intro conjI)
qed

subsection \<open>The score of a review\<close>

declare str_nat.simps [simp del]

lemma str_nat_not_Nil: "str_nat n \<noteq> []"
  by (subst str_nat.simps) simp

lemma digit_inj:
  assumes "a < 10" and "b < 10" and "(char_of (48 + a :: nat) :: char) = char_of (48 + b)"
  shows "a = b"
proof -
  from assms(3)
  have "(of_char (char_of (48 + a) :: char) :: nat) = of_char (char_of (48 + b) :: char)"
    by simp
  with assms(1,2) show ?thesis by simp
qed

lemma str_nat_inj: "str_nat n = str_nat m \<Longrightarrow> n = m"
proof (induction n arbitrary: m rule: str_nat.induct)
  case (1 n)
  show ?case
  proof (cases "n < 10")
    case small: True
    show ?thesis
    proof (cases "m < 10")
      case True
      with small "1.prems" show ?thesis
        by (intro digit_inj) (simp_all add: str_nat.simps [of n] str_nat.simps [of m])
    next
      case False
      with small "1.prems" str_nat_not_Nil [of "m div 10"] show ?thesis
        by (simp add: str_nat.simps [of n] str_nat.simps [of m] Cons_eq_append_conv)
    qed
  next
    case big: False
    show ?thesis
    proof (cases "m < 10")
      case True
      with big "1.prems" str_nat_not_Nil [of "n div 10"] show ?thesis
        by (simp add: str_nat.simps [of n] str_nat.simps [of m] append_eq_Cons_conv)
    next
      case False
      with big "1.prems" have eq: "str_nat (n div 10) = str_nat (m div 10)"
        and d: "char_of (48 + n mod 10) = (char_of (48 + m mod 10) :: char)"
        by (simp_all add: str_nat.simps [of n] str_nat.simps [of m])
      from eq big have "n div 10 = m div 10" by (rule "1.IH" [rotated])
      moreover from d have "n mod 10 = m mod 10"
        by (intro digit_inj) simp_all
      ultimately show ?thesis by (metis div_mult_mod_eq)
    qed
  qed
qed

lemma str_nat_no_minus: "CHR ''-'' \<notin> set (str_nat n)"
proof (induction n rule: str_nat.induct)
  case (1 n)
  have d: "\<And>k::nat. k < 10 \<Longrightarrow> CHR ''-'' \<noteq> char_of (48 + k)"
  proof
    fix k :: nat
    assume "k < 10" and "CHR ''-'' = (char_of (48 + k) :: char)"
    then have "of_char (CHR ''-'') = (of_char (char_of (48 + k) :: char) :: nat)" by simp
    with \<open>k < 10\<close> show False by simp
  qed
  show ?case
  proof (cases "n < 10")
    case True
    then show ?thesis using d [of n] by (simp add: str_nat.simps [of n])
  next
    case False
    then show ?thesis using d [of "n mod 10"] "1.IH" by (simp add: str_nat.simps [of n])
  qed
qed

lemma str_int_inj: "str_int a = str_int b \<longleftrightarrow> a = b"
proof
  assume eq: "str_int a = str_int b"
  show "a = b"
  proof (cases "a < 0")
    case neg: True
    show ?thesis
    proof (cases "b < 0")
      case True
      with neg eq have "nat (- a) = nat (- b)" by (auto simp: str_int_def dest: str_nat_inj)
      with neg True show ?thesis by simp
    next
      case False
      with neg eq have "str_nat (nat b) = CHR ''-'' # str_nat (nat (- a))"
        by (simp add: str_int_def)
      then have "CHR ''-'' \<in> set (str_nat (nat b))" by simp
      then show ?thesis using str_nat_no_minus by simp
    qed
  next
    case pos: False
    show ?thesis
    proof (cases "b < 0")
      case True
      with pos eq have "str_nat (nat a) = CHR ''-'' # str_nat (nat (- b))"
        by (simp add: str_int_def)
      then have "CHR ''-'' \<in> set (str_nat (nat a))" by simp
      then show ?thesis using str_nat_no_minus by simp
    next
      case False
      with pos eq have "nat a = nat b" by (auto simp: str_int_def dest: str_nat_inj)
      with pos False show ?thesis by simp
    qed
  qed
qed simp

lemma score_choice:
  "to_internal_value (ChoiceField SCORE_CHOICES) (PyInt n) =
     (if 1 \<le> n \<and> n \<le> 10 then Inr (PyInt n) else Inl (ValidationError [Invalid_choice]))"
  by (auto simp: SCORE_CHOICES_def str_int_inj) arith


lemma ReviewSerializer_writable:
  "filter (\<lambda>f. \<not> read_only f) ReviewSerializer_fields
     = [build_standard_field Review_text, build_standard_field Review_score]"
  by (simp add: ReviewSerializer_fields_def build_standard_field_def Review_id_def
      Review_text_def Review_score_def Review_pub_date_def ReviewSerializer_author_def
      ReviewSerializer_title_def)

lemma score_step_int:
  "map_of data ''score'' = Some (PyInt n) \<Longrightarrow>
   field_step partial ReviewSerializer_methods (build_standard_field Review_score) data
     = (if 1 \<le> n \<and> n \<le> 10 then Value (PyInt n) else Fail (ValidationError [Invalid_choice]))"
  by (simp add: field_step_def run_validation_def build_standard_field_def Review_score_def
      score_choice field_validators_def MaxValueValidator_def MinValueValidator_def
      ReviewSerializer_methods_def validate_score_def del: to_internal_value.simps)

lemma score_step_absent:
  "map_of data ''score'' = None \<Longrightarrow>
   field_step partial ReviewSerializer_methods (build_standard_field Review_score) data = Skip"
  by (simp add: field_step_def run_validation_def build_standard_field_def Review_score_def)

lemma text_step_valid:
  "map_of data ''text'' = Some (PyStr s) \<Longrightarrow> strip s \<noteq> [] \<Longrightarrow> CHR 0x00 \<notin> set (strip s) \<Longrightarrow>
   field_step partial ReviewSerializer_methods (build_standard_field Review_text) data
     = Value (PyStr (strip s))"
  by (simp add: field_step_def run_validation_def build_standard_field_def Review_text_def
      field_validators_def ProhibitNullCharactersValidator_def ReviewSerializer_methods_def)

lemma text_step_no_crash:
  "field_step partial ReviewSerializer_methods (build_standard_field Review_text) data = Fail e
   \<Longrightarrow> \<exists>ds. e = ValidationError ds"
  by (auto simp: field_step_def run_validation_def build_standard_field_def Review_text_def
      field_validators_def ProhibitNullCharactersValidator_def ReviewSerializer_methods_def
      split: option.splits pyval.splits if_splits)

lemma score_out_of_range_rejected:
  assumes "map_of data ''score'' = Some (PyInt n)" and "n < 1 \<or> 10 < n"
  shows "\<exists>es. serializer_to_internal_value partial ReviewSerializer_methods
                 ReviewSerializer_fields data = Inl (FieldErrors es)
              \<and> (''score'', [Invalid_choice]) \<in> set es"
proof -
  let ?t = "field_step partial ReviewSerializer_methods (build_standard_field Review_text) data"
  from assms have sc:
    "field_step partial ReviewSerializer_methods (build_standard_field Review_score) data
       = Fail (ValidationError [Invalid_choice])"
    by (auto simp: score_step_int)
  have nm: "field_name (build_standard_field Review_score) = ''score''"
    by (simp add: build_standard_field_def Review_score_def)
  show ?thesis
  proof (cases ?t)
    case Skip
    with sc nm show ?thesis
      by (simp add: serializer_to_internal_value_def ReviewSerializer_writable)
  next
    case (Value v)
    with sc nm show ?thesis
      by (simp add: serializer_to_internal_value_def ReviewSerializer_writable)
  next
    case (Fail e)
    then obtain ds where "e = ValidationError ds" using text_step_no_crash by blast
    with Fail sc nm show ?thesis
      by (simp add: serializer_to_internal_value_def ReviewSerializer_writable)
  qed
qed

lemma fields_accepted:
  assumes "map_of data ''text'' = Some (PyStr s)" and "strip s \<noteq> []"
    and "CHR 0x00 \<notin> set (strip s)"
  shows "map_of data ''score'' = Some (PyInt n) \<Longrightarrow> 1 \<le> n \<Longrightarrow> n \<le> 10 \<Longrightarrow>
           serializer_to_internal_value partial ReviewSerializer_methods
             ReviewSerializer_fields data
             = Inr [(''text'', PyStr (strip s)), (''score'', PyInt n)]"
    and "map_of data ''score'' = None \<Longrightarrow>
           serializer_to_internal_value partial ReviewSerializer_methods
             ReviewSerializer_fields data = Inr [(''text'', PyStr (strip s))]"
  using assms
  by (simp_all add: serializer_to_internal_value_def ReviewSerializer_writable
      score_step_int score_step_absent text_step_valid)
    (simp_all add: build_standard_field_def Review_text_def Review_score_def)

text \<open>
  C3 (as the code has it). A score that a creation supplies as an integer must lie in
  1..10: \<^verbatim>\<open>validate_score\<close> rejects every integer below 1 or above 10 (so 0, 11 and
  -1) with a validation error and returns every integer of 1..10, and the serializer
  rejects a submission whose score is an integer outside 1..10 with a validation error
  for the field \<^verbatim>\<open>score\<close> and accepts one whose score is in 1..10 (the text being
  valid and \<^verbatim>\<open>validate\<close> passing).  The score is not required: the model declares
  it \<^verbatim>\<open>null=True\<close>, and a submission without a score is accepted, its validated data
  holding no score.
\<close>

theorem score_checked_when_given:
  "(n < 1 \<or> 10 < n \<longrightarrow> validate_score (PyInt n) = Inl (ValidationError [Invalid_value]))
   \<and> (1 \<le> n \<and> n \<le> 10 \<longrightarrow> validate_score (PyInt n) = Inr (PyInt n))
   \<and> (map_of data ''score'' = Some (PyInt n) \<and> (n < 1 \<or> 10 < n) \<longrightarrow>
        (\<exists>es. ReviewSerializer_run_validation partial d request data = Inl (FieldErrors es)
              \<and> (''score'', [Invalid_choice]) \<in> set es))
   \<and> (map_of data ''score'' = Some (PyInt n) \<and> 1 \<le> n \<and> n \<le> 10
        \<and> map_of data ''text'' = Some (PyStr s) \<and> strip s \<noteq> [] \<and> CHR 0x00 \<notin> set (strip s)
        \<and> validate d request [(''text'', PyStr (strip s)), (''score'', PyInt n)]
            = Inr [(''text'', PyStr (strip s)), (''score'', PyInt n)]
       \<longrightarrow> ReviewSerializer_run_validation partial d request data
            = Inr [(''text'', PyStr (strip s)), (''score'', PyInt n)])
   \<and> (map_of data ''score'' = None
        \<and> map_of data ''text'' = Some (PyStr s) \<and> strip s \<noteq> [] \<and> CHR 0x00 \<notin> set (strip s)
        \<and> validate d request [(''text'', PyStr (strip s))] = Inr [(''text'', PyStr (strip s))]
       \<longrightarrow> ReviewSerializer_run_validation partial d request data
            = Inr [(''text'', PyStr (strip s))])"
proof -
  have a: "n < 1 \<or> 10 < n \<longrightarrow> validate_score (PyInt n) = Inl (ValidationError [Invalid_value])"
    by (simp add: validate_score_def)
  have b: "1 \<le> n \<and> n \<le> 10 \<longrightarrow> validate_score (PyInt n) = Inr (PyInt n)"
    by (auto simp: validate_score_def)
  have c: "map_of data ''score'' = Some (PyInt n) \<and> (n < 1 \<or> 10 < n) \<longrightarrow>
        (\<exists>es. ReviewSerializer_run_validation partial d request data = Inl (FieldErrors es)
              \<and> (''score'', [Invalid_choice]) \<in> set es)"
  proof
    assume "map_of data ''score'' = Some (PyInt n) \<and> (n < 1 \<or> 10 < n)"
    then obtain es where
      "serializer_to_internal_value partial ReviewSerializer_methods
         ReviewSerializer_fields data = Inl (FieldErrors es)"
      and "(''score'', [Invalid_choice]) \<in> set es"
      using score_out_of_range_rejected [of data n partial] by blast
    then show "\<exists>es. ReviewSerializer_run_validation partial d request data
                      = Inl (FieldErrors es)
                    \<and> (''score'', [Invalid_choice]) \<in> set es"
      by (simp add: ReviewSerializer_run_validation_def)
  qed
  have e: "map_of data ''score'' = Some (PyInt n) \<and> 1 \<le> n \<and> n \<le> 10
        \<and> map_of data ''text'' = Some (PyStr s) \<and> strip s \<noteq> [] \<and> CHR 0x00 \<notin> set (strip s)
        \<and> validate d request [(''text'', PyStr (strip s)), (''score'', PyInt n)]
            = Inr [(''text'', PyStr (strip s)), (''score'', PyInt n)]
       \<longrightarrow> ReviewSerializer_run_validation partial d request data
            = Inr [(''text'', PyStr (strip s)), (''score'', PyInt n)]"
    by (simp add: ReviewSerializer_run_validation_def fields_accepted(1))
  have f: "map_of data ''score'' = None
        \<and> map_of data ''text'' = Some (PyStr s) \<and> strip s \<noteq> [] \<and> CHR 0x00 \<notin> set (strip s)
        \<and> validate d request [(''text'', PyStr (strip s))] = Inr [(''text'', PyStr (strip s))]
       \<longrightarrow> ReviewSerializer_run_validation partial d request data
            = Inr [(''text'', PyStr (strip s))]"
    by (simp add: ReviewSerializer_run_validation_def fields_accepted(2))
  from a b c e f show ?thesis by (intro conjI)
qed

theorem score_checked_when_given_witness:
  "validate_score (PyInt 0) = Inl (ValidationError [Invalid_value])
   \<and> validate_score (PyInt 11) = Inl (ValidationError [Invalid_value])
   \<and> validate_score (PyInt (- 1)) = Inl (ValidationError [Invalid_value])
   \<and> validate_score (PyInt 10) = Inr (PyInt 10)
   \<and> (\<exists>es. ReviewSerializer_run_validation False example_db (example_post\<lparr>user := ''eve''\<rparr>)
             [(''text'', PyStr ''fine''), (''score'', PyInt 11)] = Inl (FieldErrors es)
           \<and> (''score'', [Invalid_choice]) \<in> set es)
   \<and> ReviewSerializer_run_validation False example_db (example_post\<lparr>user := ''eve''\<rparr>)
         [(''text'', PyStr '' fine ''), (''score'', PyInt 7)]
       = Inr [(''text'', PyStr ''fine''), (''score'', PyInt 7)]
   \<and> ReviewSerializer_run_validation False example_db (example_post\<lparr>user := ''eve''\<rparr>)
         [(''text'', PyStr '' fine '')]
       = Inr [(''text'', PyStr ''fine'')]"
proof -
  let ?post = "example_post\<lparr>user := ''eve''\<rparr>"
  have st: "strip '' fine '' = ''fine''"
    by code_simp
  have v2: "validate example_db ?post [(''text'', PyStr ''fine''), (''score'', PyInt 7)]
      = Inr [(''text'', PyStr ''fine''), (''score'', PyInt 7)]"
    by code_simp
  have v1: "validate example_db ?post [(''text'', PyStr ''fine'')]
      = Inr [(''text'', PyStr ''fine'')]"
    by code_simp
  have w0: "validate_score (PyInt 0) = Inl (ValidationError [Invalid_value])"
    using score_checked_when_given [of 0 "[]" False example_db ?post "[]"] by simp
  have w11: "validate_score (PyInt 11) = Inl (ValidationError [Invalid_value])"
    using score_checked_when_given [of 11 "[]" False example_db ?post "[]"] by simp
  have wm: "validate_score (PyInt (- 1)) = Inl (ValidationError [Invalid_value])"
    using score_checked_when_given [of "- 1" "[]" False example_db ?post "[]"] by simp
  have w10: "validate_score (PyInt 10) = Inr (PyInt 10)"
    using score_checked_when_given [of 10 "[]" False example_db ?post "[]"] by simp
  have r11: "\<exists>es. ReviewSerializer_run_validation False example_db ?post
             [(''text'', PyStr ''fine''), (''score'', PyInt 11)] = Inl (FieldErrors es)
           \<and> (''score'', [Invalid_choice]) \<in> set es"
    using score_checked_when_given
      [of 11 "[(''text'', PyStr ''fine''), (''score'', PyInt 11)]" False example_db ?post "[]"]
    by simp
  have r7: "ReviewSerializer_run_validation False example_db ?post
         [(''text'', PyStr '' fine ''), (''score'', PyInt 7)]
       = Inr [(''text'', PyStr ''fine''), (''score'', PyInt 7)]"
    using score_checked_when_given
      [of 7 "[(''text'', PyStr '' fine ''), (''score'', PyInt 7)]" False example_db ?post
        "'' fine ''"] v2
    by (simp add: st)
  have r: "ReviewSerializer_run_validation False example_db ?post [(''text'', PyStr '' fine '')]
       = Inr [(''text'', PyStr ''fine'')]"
    using score_checked_when_given
      [of 7 "[(''text'', PyStr '' fine '')]" False example_db ?post "'' fine ''"] v1
    by (simp add: st)
  from w0 w11 wm w10 r11 r7 r show ?thesis by (intro conjI)
qed

theorem score_not_required_counterexample:
  "method (example_post\<lparr>user := ''eve''\<rparr>) = ''POST''
   \<and> map_of [(''text'', PyStr ''fine'')] ''score'' = None
   \<and> ReviewSerializer_run_validation False example_db (example_post\<lparr>user := ''eve''\<rparr>)
         [(''text'', PyStr ''fine'')]
       = Inr [(''text'', PyStr ''fine'')]"
  by code_simp

subsection \<open>Author and title of a review\<close>

lemma field_step_cong:
  "map_of data' (field_name f) = map_of data (field_name f) \<Longrightarrow>
   field_step partial methods f data' = field_step partial methods f data"
  by (simp add: field_step_def)

lemma fields_loop_cong:
  "\<forall>f \<in> set fs. map_of data' (field_name f) = map_of data (field_name f) \<Longrightarrow>
   fields_loop partial methods data' fs errors ret = fields_loop partial methods data fs errors ret"
proof (induction fs arbitrary: errors ret)
  case Nil
  then show ?case by simp
next
  case (Cons f fs)
  from Cons.prems
  have step: "field_step partial methods f data' = field_step partial methods f data"
    by (intro field_step_cong) simp
  from Cons.prems
  have rest: "\<forall>f \<in> set fs. map_of data' (field_name f) = map_of data (field_name f)"
    by simp
  note IH = Cons.IH [OF rest]
  show ?case
  proof (cases "field_step partial methods f data")
    case Skip
    then show ?thesis using step IH by simp
  next
    case (Value x)
    then show ?thesis using step IH by simp
  next
    case (Fail e)
    then show ?thesis using step IH by (cases e) simp_all
  qed
qed

lemma fields_loop_keys:
  "fields_loop partial methods data fs errors ret = Inr v \<Longrightarrow>
   fst ` set v \<subseteq> fst ` set ret \<union> field_name ` set fs"
proof (induction fs arbitrary: errors ret)
  case Nil
  then show ?case by (simp split: if_splits)
next
  case (Cons f fs)
  show ?case
  proof (cases "field_step partial methods f data")
    case Skip
    with Cons.prems have "fields_loop partial methods data fs errors ret = Inr v" by simp
    from Cons.IH [OF this] show ?thesis by auto
  next
    case (Value x)
    with Cons.prems
    have "fields_loop partial methods data fs errors (ret @ [(field_name f, x)]) = Inr v"
      by simp
    from Cons.IH [OF this] show ?thesis by auto
  next
    case (Fail e)
    with Cons.prems obtain ds where
      "fields_loop partial methods data fs (errors @ [(field_name f, ds)]) ret = Inr v"
      by (cases e) simp_all
    from Cons.IH [OF this] show ?thesis by auto
  qed
qed

lemma validate_result: "validate d request data = Inr v \<Longrightarrow> v = data"
  by (auto simp: validate_def Let_def split: if_splits sum.splits)

lemma run_validation_Inr:
  "ReviewSerializer_run_validation partial d request data = Inr v \<Longrightarrow>
   serializer_to_internal_value partial ReviewSerializer_methods ReviewSerializer_fields data
     = Inr v"
proof -
  assume a: "ReviewSerializer_run_validation partial d request data = Inr v"
  show ?thesis
  proof (cases "serializer_to_internal_value partial ReviewSerializer_methods
      ReviewSerializer_fields data")
    case (Inl e)
    with a show ?thesis by (simp add: ReviewSerializer_run_validation_def)
  next
    case (Inr v0)
    show ?thesis
    proof (cases "validate d request v0")
      case (Inl e)
      with a Inr show ?thesis
        by (cases e) (simp_all add: ReviewSerializer_run_validation_def)
    next
      case val: (Inr v1)
      with a Inr have "v1 = v" by (simp add: ReviewSerializer_run_validation_def)
      with validate_result [OF val] have "v = v0" by simp
      with Inr show ?thesis by simp
    qed
  qed
qed

lemma ReviewSerializer_validated_keys:
  assumes "ReviewSerializer_run_validation partial d request data = Inr v"
  shows "fst ` set v \<subseteq> {''text'', ''score''}"
proof -
  from assms have "serializer_to_internal_value partial ReviewSerializer_methods
      ReviewSerializer_fields data = Inr v"
    by (rule run_validation_Inr)
  then have loop: "fields_loop partial ReviewSerializer_methods data
      [build_standard_field Review_text, build_standard_field Review_score] [] [] = Inr v"
    unfolding serializer_to_internal_value_def ReviewSerializer_writable .
  have names: "field_name ` set [build_standard_field Review_text,
      build_standard_field Review_score] = {''text'', ''score''}"
    by (simp add: build_standard_field_def Review_text_def Review_score_def)
  from fields_loop_keys [OF loop] names show ?thesis by simp
qed

lemma ReviewSerializer_ignores_author_title:
  assumes "\<forall>k. k \<noteq> ''author'' \<and> k \<noteq> ''title'' \<longrightarrow> map_of data' k = map_of data k"
  shows "ReviewSerializer_run_validation partial d request data'
           = ReviewSerializer_run_validation partial d request data"
proof -
  have "serializer_to_internal_value partial ReviewSerializer_methods
           ReviewSerializer_fields data'
        = serializer_to_internal_value partial ReviewSerializer_methods
           ReviewSerializer_fields data"
    unfolding serializer_to_internal_value_def ReviewSerializer_writable
    by (rule fields_loop_cong)
      (simp add: assms build_standard_field_def Review_text_def Review_score_def)
  then show ?thesis by (simp add: ReviewSerializer_run_validation_def)
qed

lemma ReviewSerializer_save_stores:
  assumes "ReviewSerializer_save d now v a t = Inr d'"
  shows "\<exists>r. reviews d' = reviews d @ [r] \<and> Review.author r = User.pk a
             \<and> Review.title r = Title.pk t"
  using assms
  by (auto simp: ReviewSerializer_save_def ModelSerializer_create_def
      Review_objects_create_def split: if_splits)

lemma perform_create_stores:
  assumes "perform_create d now request data = Inr d'"
  shows "\<exists>a t r. get_object_or_404 (users d) (\<lambda>u. username u = user request) = Inr a
           \<and> get_object_or_404 (titles d)
                (\<lambda>t. Some (Title.pk t) = map_of (kwargs request) ''title_id'') = Inr t
           \<and> reviews d' = reviews d @ [r]
           \<and> Review.author r = User.pk a \<and> Review.title r = Title.pk t"
proof -
  from assms obtain v a t where
    "get_object_or_404 (users d) (\<lambda>u. username u = user request) = Inr a"
    "get_object_or_404 (titles d)
        (\<lambda>t. Some (Title.pk t) = map_of (kwargs request) ''title_id'') = Inr t"
    "ReviewSerializer_save d now v a t = Inr d'"
    by (auto simp: perform_create_def split: sum.splits)
  then show ?thesis using ReviewSerializer_save_stores by blast
qed

lemma get_object_or_404_mem:
  "get_object_or_404 objects cond = Inr x \<Longrightarrow> x \<in> set objects \<and> cond x"
proof -
  assume a: "get_object_or_404 objects cond = Inr x"
  then have "filter cond objects = [x]"
    by (auto simp: get_object_or_404_def split: list.splits)
  then have "x \<in> set (filter cond objects)" by simp
  then show ?thesis by simp
qed

text \<open>
  C8. Author and title of a review never come from the body of the request.  Both
  fields are read-only in \<^verbatim>\<open>ReviewSerializer\<close>: two bodies that differ only in their
  entries \<^verbatim>\<open>author\<close> and \<^verbatim>\<open>title\<close> have the same result of validation, and
  validated data never hold an author or a title.  Saving stores the author and the
  title that the caller hands to \<^verbatim>\<open>save\<close>, whatever the validated data.  With the view
  of the specification the stored author is the user of the request and the stored
  title is the one that the identifier of the route names, and the two bodies lead to
  the same database.
\<close>

theorem author_and_title_from_request:
  "((\<forall>k. k \<noteq> ''author'' \<and> k \<noteq> ''title'' \<longrightarrow> map_of data' k = map_of data k) \<longrightarrow>
       ReviewSerializer_run_validation partial d request data'
         = ReviewSerializer_run_validation partial d request data
       \<and> perform_create d now request data' = perform_create d now request data)
   \<and> (ReviewSerializer_run_validation partial d request data = Inr v \<longrightarrow>
         map_of v ''author'' = None \<and> map_of v ''title'' = None)
   \<and> (ReviewSerializer_save d now v' a t = Inr d' \<longrightarrow>
         (\<exists>r. reviews d' = reviews d @ [r] \<and> Review.author r = User.pk a
              \<and> Review.title r = Title.pk t))
   \<and> (perform_create d now request data = Inr d'' \<longrightarrow>
         (\<exists>a t r. a \<in> set (users d) \<and> username a = user request
              \<and> t \<in> set (titles d) \<and> Some (Title.pk t) = map_of (kwargs request) ''title_id''
              \<and> reviews d'' = reviews d @ [r]
              \<and> Review.author r = User.pk a \<and> Review.title r = Title.pk t))"
proof -
  have p1: "(\<forall>k. k \<noteq> ''author'' \<and> k \<noteq> ''title'' \<longrightarrow> map_of data' k = map_of data k) \<longrightarrow>
       ReviewSerializer_run_validation partial d request data'
         = ReviewSerializer_run_validation partial d request data
       \<and> perform_create d now request data' = perform_create d now request data"
  proof
    assume same: "\<forall>k. k \<noteq> ''author'' \<and> k \<noteq> ''title'' \<longrightarrow> map_of data' k = map_of data k"
    then have "\<And>p. ReviewSerializer_run_validation p d request data'
         = ReviewSerializer_run_validation p d request data"
      by (rule ReviewSerializer_ignores_author_title)
    then show "ReviewSerializer_run_validation partial d request data'
         = ReviewSerializer_run_validation partial d request data
       \<and> perform_create d now request data' = perform_create d now request data"
      by (simp add: perform_create_def)
  qed
  have p2: "ReviewSerializer_run_validation partial d request data = Inr v \<longrightarrow>
         map_of v ''author'' = None \<and> map_of v ''title'' = None"
  proof
    assume "ReviewSerializer_run_validation partial d request data = Inr v"
    then have "fst ` set v \<subseteq> {''text'', ''score''}"
      by (rule ReviewSerializer_validated_keys)
    then have "''author'' \<notin> fst ` set v" and "''title'' \<notin> fst ` set v"
      by auto
    then show "map_of v ''author'' = None \<and> map_of v ''title'' = None"
      by (simp add: map_of_eq_None_iff)
  qed
  have p3: "ReviewSerializer_save d now v' a t = Inr d' \<longrightarrow>
         (\<exists>r. reviews d' = reviews d @ [r] \<and> Review.author r = User.pk a
              \<and> Review.title r = Title.pk t)"
    using ReviewSerializer_save_stores by (intro impI)
  have p4: "perform_create d now request data = Inr d'' \<longrightarrow>
         (\<exists>a t r. a \<in> set (users d) \<and> username a = user request
              \<and> t \<in> set (titles d) \<and> Some (Title.pk t) = map_of (kwargs request) ''title_id''
              \<and> reviews d'' = reviews d @ [r]
              \<and> Review.author r = User.pk a \<and> Review.title r = Title.pk t)"
  proof
    assume "perform_create d now request data = Inr d''"
    then obtain a t r where
      a: "get_object_or_404 (users d) (\<lambda>u. username u = user request) = Inr a"
      and t: "get_object_or_404 (titles d)
                (\<lambda>t. Some (Title.pk t) = map_of (kwargs request) ''title_id'') = Inr t"
      and r: "reviews d'' = reviews d @ [r]" "Review.author r = User.pk a"
        "Review.title r = Title.pk t"
      using perform_create_stores by blast
    from get_object_or_404_mem [OF a] get_object_or_404_mem [OF t] r
    show "\<exists>a t r. a \<in> set (users d) \<and> username a = user request
              \<and> t \<in> set (titles d) \<and> Some (Title.pk t) = map_of (kwargs request) ''title_id''
              \<and> reviews d'' = reviews d @ [r]
              \<and> Review.author r = User.pk a \<and> Review.title r = Title.pk t"
      by blast
  qed
  from p1 p2 p3 p4 show ?thesis by (intro conjI)
qed

theorem author_and_title_from_request_witness:
  "ReviewSerializer_run_validation False example_db (example_post\<lparr>user := ''eve''\<rparr>)
       example_forged = Inr example_plain
   \<and> perform_create example_db 40 (example_post\<lparr>user := ''eve''\<rparr>) example_forged
       = Inr (example_db\<lparr>reviews := example_reviews @
           [\<lparr>Review.pk = 6, title = 1, text = ''fine'', author = 3, score = Some 7,
             pub_date = 40\<rparr>]\<rparr>)"
proof -
  let ?post = "example_post\<lparr>user := ''eve''\<rparr>"
  have same: "\<forall>k. k \<noteq> ''author'' \<and> k \<noteq> ''title'' \<longrightarrow>
      map_of example_forged k = map_of example_plain k"
    by (simp add: example_forged_def example_plain_def)
  have v: "ReviewSerializer_run_validation False example_db ?post example_plain
      = Inr example_plain"
    by code_simp
  have c: "perform_create example_db 40 ?post example_plain
       = Inr (example_db\<lparr>reviews := example_reviews @
           [\<lparr>Review.pk = 6, title = 1, text = ''fine'', author = 3, score = Some 7,
             pub_date = 40\<rparr>]\<rparr>)"
    by code_simp
  from author_and_title_from_request
    [of example_forged example_plain False example_db ?post 40 example_plain example_plain
      "example_users ! 2" "example_titles ! 0" example_db example_db] same
  have "ReviewSerializer_run_validation False example_db ?post example_forged
         = ReviewSerializer_run_validation False example_db ?post example_plain
       \<and> perform_create example_db 40 ?post example_forged
         = perform_create example_db 40 ?post example_plain"
    by (elim conjE) (rule mp)
  with v c show ?thesis by simp
qed

subsection \<open>The user name in the two user serializers\<close>

lemma UserSerializer_no_hook:
  "field_step partial UserSerializer_methods (UserSerializer_username queryset instance) data
     = run_validation partial (UserSerializer_username queryset instance)
         (map_of data ''username'')"
  by (simp add: field_step_def UserSerializer_methods_def UserSerializer_username_def
      split: outcome.splits)

lemma username_field_failures:
  assumes "run_validation partial (UserSerializer_username queryset instance) entry
             = Fail (ValidationError ds)"
  shows "set ds \<subseteq> {Required, Null, Blank, Invalid, Unique, Null_characters}"
proof (cases entry)
  case None
  with assms show ?thesis
    by (auto simp: run_validation_def UserSerializer_username_def split: if_splits)
next
  case (Some v)
  show ?thesis
  proof (cases v)
    case PyNone
    with Some assms show ?thesis
      by (auto simp: run_validation_def UserSerializer_username_def split: if_splits)
  next
    case (PyInt n)
    with Some assms show ?thesis
      by (auto simp: run_validation_def UserSerializer_username_def field_validators_def
          UniqueValidator_def ProhibitNullCharactersValidator_def split: if_splits)
  next
    case (PyStr s)
    with Some assms show ?thesis
      by (auto simp: run_validation_def UserSerializer_username_def field_validators_def
          UniqueValidator_def ProhibitNullCharactersValidator_def split: if_splits)
  qed
qed

lemma username_accepted:
  assumes "map_of data ''username'' = Some (PyStr s)" and "strip s \<noteq> []"
    and "CHR 0x00 \<notin> set (strip s)"
    and "strip s \<notin> username ` set (exclude_current_instance User.pk instance queryset)"
  shows "run_validation partial (UserSerializer_username queryset instance)
           (map_of data ''username'') = Value (PyStr (strip s))"
    and "run_validation partial (RegisterDataSerializer_username queryset instance)
           (map_of data ''username'') = Value (PyStr (strip s))"
  using assms
  by (auto simp: run_validation_def UserSerializer_username_def
      RegisterDataSerializer_username_def field_validators_def UniqueValidator_def
      ProhibitNullCharactersValidator_def)

lemma Register_hook:
  "run_validation partial (RegisterDataSerializer_username queryset instance)
      (map_of data ''username'') = Value (PyStr s') \<Longrightarrow>
   field_step partial (RegisterDataSerializer_methods VALIDATE_NAME)
      (RegisterDataSerializer_username queryset instance) data
     = (if lower s' = VALIDATE_NAME
        then Fail (ValidationError [Username_not_valid VALIDATE_NAME])
        else Value (PyStr s'))"
  by (simp add: field_step_def RegisterDataSerializer_methods_def
      RegisterDataSerializer_username_def validate_username_def)

text \<open>
  C5. In the registration serializer, a user name whose lower-cased value equals the
  configured \<^verbatim>\<open>VALIDATE_NAME\<close> is rejected with a validation error, and a user name
  whose lower-cased value differs passes the check unchanged: so does the method
  \<^verbatim>\<open>validate_username\<close>, and so does the serializer with the value that its field
  \<^verbatim>\<open>username\<close> has validated.  With the sentinel \<^verbatim>\<open>'me'\<close>: \<^verbatim>\<open>'me'\<close>,
  \<^verbatim>\<open>'ME'\<close> and \<^verbatim>\<open>'Me'\<close> are rejected and \<^verbatim>\<open>'me_too'\<close> passes.
\<close>

theorem validate_username_reserved:
  "(lower s = VALIDATE_NAME \<longrightarrow>
      validate_username VALIDATE_NAME (PyStr s)
        = Inl (ValidationError [Username_not_valid VALIDATE_NAME]))
   \<and> (lower s \<noteq> VALIDATE_NAME \<longrightarrow>
      validate_username VALIDATE_NAME (PyStr s) = Inr (PyStr s))
   \<and> (run_validation partial (RegisterDataSerializer_username queryset instance)
          (map_of data ''username'') = Value (PyStr s) \<longrightarrow>
        field_step partial (RegisterDataSerializer_methods VALIDATE_NAME)
          (RegisterDataSerializer_username queryset instance) data
         = (if lower s = VALIDATE_NAME
            then Fail (ValidationError [Username_not_valid VALIDATE_NAME])
            else Value (PyStr s)))"
proof -
  have a: "lower s = VALIDATE_NAME \<longrightarrow>
      validate_username VALIDATE_NAME (PyStr s)
        = Inl (ValidationError [Username_not_valid VALIDATE_NAME])"
    by (simp add: validate_username_def)
  have b: "lower s \<noteq> VALIDATE_NAME \<longrightarrow>
      validate_username VALIDATE_NAME (PyStr s) = Inr (PyStr s)"
    by (simp add: validate_username_def)
  have c: "run_validation partial (RegisterDataSerializer_username queryset instance)
          (map_of data ''username'') = Value (PyStr s) \<longrightarrow>
        field_step partial (RegisterDataSerializer_methods VALIDATE_NAME)
          (RegisterDataSerializer_username queryset instance) data
         = (if lower s = VALIDATE_NAME
            then Fail (ValidationError [Username_not_valid VALIDATE_NAME])
            else Value (PyStr s))"
    using Register_hook by (intro impI)
  from a b c show ?thesis by (intro conjI)
qed

theorem validate_username_reserved_witness:
  "validate_username ''me'' (PyStr ''me'') = Inl (ValidationError [Username_not_valid ''me''])
   \<and> validate_username ''me'' (PyStr ''ME'') = Inl (ValidationError [Username_not_valid ''me''])
   \<and> validate_username ''me'' (PyStr ''Me'') = Inl (ValidationError [Username_not_valid ''me''])
   \<and> validate_username ''me'' (PyStr ''me_too'') = Inr (PyStr ''me_too'')
   \<and> field_step False (RegisterDataSerializer_methods ''me'')
        (RegisterDataSerializer_username example_users None) [(''username'', PyStr ''ME'')]
       = Fail (ValidationError [Username_not_valid ''me''])
   \<and> field_step False (RegisterDataSerializer_methods ''me'')
        (RegisterDataSerializer_username example_users None) [(''username'', PyStr ''me_too'')]
       = Value (PyStr ''me_too'')"
proof -
  have l: "lower ''me'' = ''me''" "lower ''ME'' = ''me''" "lower ''Me'' = ''me''"
    "lower ''me_too'' \<noteq> ''me''"
    by code_simp+
  have r1: "run_validation False (RegisterDataSerializer_username example_users None)
      (map_of [(''username'', PyStr ''ME'')] ''username'') = Value (PyStr ''ME'')"
    by code_simp
  have r2: "run_validation False (RegisterDataSerializer_username example_users None)
      (map_of [(''username'', PyStr ''me_too'')] ''username'') = Value (PyStr ''me_too'')"
    by code_simp
  note t1 = validate_username_reserved
    [of "''me''" "''me''" False example_users None "[(''username'', PyStr ''me'')]"]
  note t2 = validate_username_reserved
    [of "''ME''" "''me''" False example_users None "[(''username'', PyStr ''ME'')]"]
  note t3 = validate_username_reserved
    [of "''Me''" "''me''" False example_users None "[(''username'', PyStr ''Me'')]"]
  note t4 = validate_username_reserved
    [of "''me_too''" "''me''" False example_users None "[(''username'', PyStr ''me_too'')]"]
  have a: "validate_username ''me'' (PyStr ''me'')
      = Inl (ValidationError [Username_not_valid ''me''])"
    using t1 l by simp
  have b: "validate_username ''me'' (PyStr ''ME'')
      = Inl (ValidationError [Username_not_valid ''me''])"
    using t2 l by simp
  have c: "validate_username ''me'' (PyStr ''Me'')
      = Inl (ValidationError [Username_not_valid ''me''])"
    using t3 l by simp
  have e: "validate_username ''me'' (PyStr ''me_too'') = Inr (PyStr ''me_too'')"
    using t4 l by simp
  have f: "field_step False (RegisterDataSerializer_methods ''me'')
        (RegisterDataSerializer_username example_users None) [(''username'', PyStr ''ME'')]
       = Fail (ValidationError [Username_not_valid ''me''])"
    using t2 [THEN conjunct2, THEN conjunct2, THEN mp, OF r1] l by simp
  have g: "field_step False (RegisterDataSerializer_methods ''me'')
        (RegisterDataSerializer_username example_users None) [(''username'', PyStr ''me_too'')]
       = Value (PyStr ''me_too'')"
    using t4 [THEN conjunct2, THEN conjunct2, THEN mp, OF r2] l by simp
  from a b c e f g show ?thesis by (intro conjI)
qed

text \<open>
  C9. The check of the reserved user name belongs to the registration serializer only.
  \<^verbatim>\<open>UserSerializer\<close> has no method \<^verbatim>\<open>validate_username\<close>: what it does with a
  user name is what the field does (shape and uniqueness), and no failure of it carries
  the message of the reserved name.  A user name that equals \<^verbatim>\<open>VALIDATE_NAME\<close> once
  stripped and lower-cased, is not blank, holds no null character and is not in use is
  accepted by \<^verbatim>\<open>UserSerializer\<close> and rejected by \<^verbatim>\<open>RegisterDataSerializer\<close>.
\<close>

theorem UserSerializer_has_no_reserved_name_check:
  "map_of UserSerializer_methods
       (''validate_'' @ field_name (UserSerializer_username queryset instance)) = None
   \<and> field_step partial UserSerializer_methods (UserSerializer_username queryset instance) data
       = run_validation partial (UserSerializer_username queryset instance)
           (map_of data ''username'')
   \<and> (field_step partial UserSerializer_methods (UserSerializer_username queryset instance) data
         = Fail (ValidationError ds) \<longrightarrow> Username_not_valid VALIDATE_NAME \<notin> set ds)
   \<and> (map_of data ''username'' = Some (PyStr s) \<and> lower (strip s) = VALIDATE_NAME
        \<and> strip s \<noteq> [] \<and> CHR 0x00 \<notin> set (strip s)
        \<and> strip s \<notin> username ` set (exclude_current_instance User.pk instance queryset)
       \<longrightarrow> field_step partial UserSerializer_methods
              (UserSerializer_username queryset instance) data = Value (PyStr (strip s))
           \<and> field_step partial (RegisterDataSerializer_methods VALIDATE_NAME)
              (RegisterDataSerializer_username queryset instance) data
               = Fail (ValidationError [Username_not_valid VALIDATE_NAME]))"
proof -
  have a: "map_of UserSerializer_methods
       (''validate_'' @ field_name (UserSerializer_username queryset instance)) = None"
    by (simp add: UserSerializer_methods_def)
  note b = UserSerializer_no_hook [of partial queryset "instance" data]
  have c: "field_step partial UserSerializer_methods
      (UserSerializer_username queryset instance) data = Fail (ValidationError ds)
      \<longrightarrow> Username_not_valid VALIDATE_NAME \<notin> set ds"
  proof
    assume "field_step partial UserSerializer_methods
      (UserSerializer_username queryset instance) data = Fail (ValidationError ds)"
    with b have "run_validation partial (UserSerializer_username queryset instance)
        (map_of data ''username'') = Fail (ValidationError ds)"
      by simp
    from username_field_failures [OF this]
    show "Username_not_valid VALIDATE_NAME \<notin> set ds" by auto
  qed
  have e: "map_of data ''username'' = Some (PyStr s) \<and> lower (strip s) = VALIDATE_NAME
        \<and> strip s \<noteq> [] \<and> CHR 0x00 \<notin> set (strip s)
        \<and> strip s \<notin> username ` set (exclude_current_instance User.pk instance queryset)
       \<longrightarrow> field_step partial UserSerializer_methods
              (UserSerializer_username queryset instance) data = Value (PyStr (strip s))
           \<and> field_step partial (RegisterDataSerializer_methods VALIDATE_NAME)
              (RegisterDataSerializer_username queryset instance) data
               = Fail (ValidationError [Username_not_valid VALIDATE_NAME])"
  proof
    assume h: "map_of data ''username'' = Some (PyStr s) \<and> lower (strip s) = VALIDATE_NAME
        \<and> strip s \<noteq> [] \<and> CHR 0x00 \<notin> set (strip s)
        \<and> strip s \<notin> username ` set (exclude_current_instance User.pk instance queryset)"
    then have h1: "map_of data ''username'' = Some (PyStr s)" and h2: "strip s \<noteq> []"
      and h3: "CHR 0x00 \<notin> set (strip s)"
      and h4: "strip s \<notin> username ` set (exclude_current_instance User.pk instance queryset)"
      by simp_all
    note u = username_accepted(1) [OF h1 h2 h3 h4, of partial]
    note r = username_accepted(2) [OF h1 h2 h3 h4, of partial]
    from u b have "field_step partial UserSerializer_methods
        (UserSerializer_username queryset instance) data = Value (PyStr (strip s))"
      by simp
    moreover from Register_hook [OF r, of VALIDATE_NAME] h
    have "field_step partial (RegisterDataSerializer_methods VALIDATE_NAME)
        (RegisterDataSerializer_username queryset instance) data
         = Fail (ValidationError [Username_not_valid VALIDATE_NAME])"
      by simp
    ultimately show "field_step partial UserSerializer_methods
              (UserSerializer_username queryset instance) data = Value (PyStr (strip s))
           \<and> field_step partial (RegisterDataSerializer_methods VALIDATE_NAME)
              (RegisterDataSerializer_username queryset instance) data
               = Fail (ValidationError [Username_not_valid VALIDATE_NAME])"
      by simp
  qed
  from a b c e show ?thesis by (intro conjI)
qed

theorem UserSerializer_has_no_reserved_name_check_witness:
  "field_step False UserSerializer_methods (UserSerializer_username example_users None)
       [(''username'', PyStr ''Me''), (''email'', PyStr ''me@example.org'')]
     = Value (PyStr ''Me'')
   \<and> field_step False (RegisterDataSerializer_methods ''me'')
       (RegisterDataSerializer_username example_users None)
       [(''username'', PyStr ''Me''), (''email'', PyStr ''me@example.org'')]
     = Fail (ValidationError [Username_not_valid ''me''])"
proof -
  have st: "strip ''Me'' = ''Me''" and lo: "lower ''Me'' = ''me''"
    by code_simp+
  have fresh: "''Me'' \<notin> username ` set (exclude_current_instance User.pk None example_users)"
    by (simp add: exclude_current_instance_def example_users_def)
  have h: "map_of [(''username'', PyStr ''Me''), (''email'', PyStr ''me@example.org'')]
        ''username'' = Some (PyStr ''Me'')
      \<and> lower (strip ''Me'') = ''me'' \<and> strip ''Me'' \<noteq> []
      \<and> CHR 0x00 \<notin> set (strip ''Me'')
      \<and> strip ''Me'' \<notin> username ` set (exclude_current_instance User.pk None example_users)"
    using lo fresh by (simp add: st)
  from UserSerializer_has_no_reserved_name_check
    [of example_users None False
      "[(''username'', PyStr ''Me''), (''email'', PyStr ''me@example.org'')]"
      "[]" "''me''" "''Me''", THEN conjunct2, THEN conjunct2, THEN conjunct2, THEN mp, OF h]
  have "field_step False UserSerializer_methods (UserSerializer_username example_users None)
       [(''username'', PyStr ''Me''), (''email'', PyStr ''me@example.org'')]
     = Value (PyStr (strip ''Me''))
   \<and> field_step False (RegisterDataSerializer_methods ''me'')
       (RegisterDataSerializer_username example_users None)
       [(''username'', PyStr ''Me''), (''email'', PyStr ''me@example.org'')]
     = Fail (ValidationError [Username_not_valid ''me''])" .
  then show ?thesis by (simp add: st)
qed

subsection \<open>The year of a title\<close>

lemma year_validators:
  "run_validators (mf_validators (Title_year current_year)) (PyInt y) []
     = (if current_year < y then Some (ValidationError [Year_in_future]) else None)"
  by (simp add: Title_year_def validate_year_def)

lemma year_step_future:
  assumes "map_of data ''year'' = Some (PyInt y)" and "current_year < y"
  shows "field_step partial (TitleSerializer_methods current_year)
           (build_standard_field (Title_year current_year)) data
         = Fail (ValidationError [Year_in_future])"
  using assms
  by (simp add: field_step_def run_validation_def build_standard_field_def Title_year_def
      field_validators_def validate_year_def)

text \<open>
  C4. A year in the future is rejected.  The check is made by the validator
  \<^verbatim>\<open>validate_year\<close> of the model field \<^verbatim>\<open>Title.year\<close>, which the serializer field
  inherits: a year greater than the current year fails with a validation error, and a
  year up to the current year passes the validators of the field.  The method
  \<^verbatim>\<open>validator_year\<close> of \<^verbatim>\<open>TitleSerializer\<close> makes the same comparison, but its name
  is not \<^verbatim>\<open>validate_year\<close>, so the serializer does not find it as the method of the
  field \<^verbatim>\<open>year\<close>, nor of any other field.
\<close>

theorem year_not_in_future:
  "(map_of data ''year'' = Some (PyInt y) \<and> current_year < y \<longrightarrow>
      (\<exists>ds. field_step partial (TitleSerializer_methods current_year)
               (build_standard_field (Title_year current_year)) data
             = Fail (ValidationError ds) \<and> Year_in_future \<in> set ds))
   \<and> (y \<le> current_year \<longrightarrow>
        run_validators (mf_validators (Title_year current_year)) (PyInt y) [] = None)
   \<and> (current_year < y \<longrightarrow>
        run_validators (mf_validators (Title_year current_year)) (PyInt y) []
          = Some (ValidationError [Year_in_future]))
   \<and> map_of (TitleSerializer_methods current_year)
        (''validate_'' @ mf_name (Title_year current_year)) = None
   \<and> (\<forall>name. ''validate_'' @ name \<noteq> ''validator_year'')
   \<and> (current_year < y \<longrightarrow>
        validator_year current_year (PyInt y) = Inl (ValidationError [Not_a_correct_year]))
   \<and> (y \<le> current_year \<longrightarrow> validator_year current_year (PyInt y) = Inr (PyInt y))"
proof -
  have a: "map_of data ''year'' = Some (PyInt y) \<and> current_year < y \<longrightarrow>
      (\<exists>ds. field_step partial (TitleSerializer_methods current_year)
               (build_standard_field (Title_year current_year)) data
             = Fail (ValidationError ds) \<and> Year_in_future \<in> set ds)"
    by (simp add: year_step_future)
  have b: "y \<le> current_year \<longrightarrow>
        run_validators (mf_validators (Title_year current_year)) (PyInt y) [] = None"
    by (simp add: year_validators)
  have c: "current_year < y \<longrightarrow>
        run_validators (mf_validators (Title_year current_year)) (PyInt y) []
          = Some (ValidationError [Year_in_future])"
    by (simp add: year_validators)
  have e: "map_of (TitleSerializer_methods current_year)
        (''validate_'' @ mf_name (Title_year current_year)) = None"
    by (simp add: TitleSerializer_methods_def Title_year_def)
  have n: "\<forall>name. ''validate_'' @ name \<noteq> ''validator_year''"
    by simp
  have f: "current_year < y \<longrightarrow>
        validator_year current_year (PyInt y) = Inl (ValidationError [Not_a_correct_year])"
    by (simp add: validator_year_def)
  have g: "y \<le> current_year \<longrightarrow> validator_year current_year (PyInt y) = Inr (PyInt y)"
    by (simp add: validator_year_def)
  from a b c e n f g show ?thesis by (intro conjI)
qed

theorem year_not_in_future_witness:
  "(\<exists>ds. field_step False (TitleSerializer_methods 2026)
            (build_standard_field (Title_year 2026))
            [(''name'', PyStr ''Dune''), (''year'', PyInt 2027)]
          = Fail (ValidationError ds) \<and> Year_in_future \<in> set ds)
   \<and> run_validators (mf_validators (Title_year 2026)) (PyInt 2026) [] = None
   \<and> run_validators (mf_validators (Title_year 2026)) (PyInt 1965) [] = None
   \<and> validator_year 2026 (PyInt 2027) = Inl (ValidationError [Not_a_correct_year])
   \<and> validator_year 2026 (PyInt 2026) = Inr (PyInt 2026)"
proof -
  note future = year_not_in_future
    [of "[(''name'', PyStr ''Dune''), (''year'', PyInt 2027)]" 2027 2026 False]
  note now = year_not_in_future
    [of "[(''name'', PyStr ''Dune''), (''year'', PyInt 2026)]" 2026 2026 False]
  note past = year_not_in_future
    [of "[(''name'', PyStr ''Dune''), (''year'', PyInt 1965)]" 1965 2026 False]
  have a: "\<exists>ds. field_step False (TitleSerializer_methods 2026)
            (build_standard_field (Title_year 2026))
            [(''name'', PyStr ''Dune''), (''year'', PyInt 2027)]
          = Fail (ValidationError ds) \<and> Year_in_future \<in> set ds"
    using future by simp
  have b: "run_validators (mf_validators (Title_year 2026)) (PyInt 2026) [] = None"
    using now by simp
  have c: "run_validators (mf_validators (Title_year 2026)) (PyInt 1965) [] = None"
    using past by simp
  have e: "validator_year 2026 (PyInt 2027) = Inl (ValidationError [Not_a_correct_year])"
    using future by simp
  have f: "validator_year 2026 (PyInt 2026) = Inr (PyInt 2026)"
    using now by simp
  from a b c e f show ?thesis by (intro conjI)
qed

subsection \<open>Name and year of a title\<close>

lemma matching_rows:
  "filter (\<lambda>row. map (map_of (Title_values row)) [''name'', ''year'']
                    = [Some (PyStr n), Some (PyInt y)]) rows
     = filter (\<lambda>t. Title.name t = n \<and> year t = y) rows"
  by (simp add: Title_values_def)

lemma unique_create:
  assumes "map_of attrs ''name'' = Some (PyStr n)"
    and "map_of attrs ''year'' = Some (PyInt y)"
  shows "TitleSerializer_Meta_validator d None attrs
           = (if \<exists>t \<in> set (titles d). Title.name t = n \<and> year t = y
              then Some (ValidationError [Unique_together]) else None)"
proof -
  have m: "filter (\<lambda>row. map (map_of (Title_values row)) [''name'', ''year'']
                    = [Some (PyStr n), Some (PyInt y)]) (titles d)
     = filter (\<lambda>t. Title.name t = n \<and> year t = y) (titles d)"
    by (rule matching_rows)
  show ?thesis
    unfolding TitleSerializer_Meta_validator_def UniqueTogetherValidator_def Let_def
    using assms m
    by (simp add: exclude_current_instance_def filter_empty_conv)
qed

lemma unique_update:
  assumes "map_of attrs ''name'' = None \<and> n = Title.name i
           \<or> map_of attrs ''name'' = Some (PyStr n)"
    and "map_of attrs ''year'' = None \<and> y = year i \<or> map_of attrs ''year'' = Some (PyInt y)"
  shows "TitleSerializer_Meta_validator d (Some i) attrs
           = (if \<exists>t \<in> set (titles d). Title.pk t \<noteq> Title.pk i \<and> Title.name t = n \<and> year t = y
              then Some (ValidationError [Unique_together]) else None)"
proof -
  have w: "map (\<lambda>f. case map_of attrs f of Some v \<Rightarrow> Some v
                     | None \<Rightarrow> (case Some i of Some i \<Rightarrow> map_of (Title_values i) f | None \<Rightarrow> None))
              [''name'', ''year''] = [Some (PyStr n), Some (PyInt y)]"
    using assms by (auto simp: Title_values_def)
  have m: "filter (\<lambda>row. map (map_of (Title_values row)) [''name'', ''year'']
                    = [Some (PyStr n), Some (PyInt y)]) (titles d)
     = filter (\<lambda>t. Title.name t = n \<and> year t = y) (titles d)"
    by (rule matching_rows)
  show ?thesis
    unfolding TitleSerializer_Meta_validator_def UniqueTogetherValidator_def Let_def w m
    by (auto simp: exclude_current_instance_def filter_empty_conv)
qed

text \<open>
  C6. The pair of name and year is unique among titles.  On a create, validated data
  whose name and year are already in use by an existing title are rejected with the
  uniqueness error of the validator, and are accepted by it otherwise.  On an update,
  the pair that results (a field that the data leave out keeps the value of the title
  that is updated) is rejected exactly when it is already in use, that is when a title
  other than the one that is updated has it.  The validator only reads the table, so
  nothing has been saved when it rejects.
\<close>

theorem name_and_year_unique:
  "(map_of attrs ''name'' = Some (PyStr n) \<and> map_of attrs ''year'' = Some (PyInt y) \<longrightarrow>
      TitleSerializer_Meta_validator d None attrs
        = (if \<exists>t \<in> set (titles d). Title.name t = n \<and> year t = y
           then Some (ValidationError [Unique_together]) else None))
   \<and> ((map_of attrs ''name'' = None \<and> n = Title.name i
           \<or> map_of attrs ''name'' = Some (PyStr n))
      \<and> (map_of attrs ''year'' = None \<and> y = year i
           \<or> map_of attrs ''year'' = Some (PyInt y)) \<longrightarrow>
      TitleSerializer_Meta_validator d (Some i) attrs
        = (if \<exists>t \<in> set (titles d). Title.pk t \<noteq> Title.pk i \<and> Title.name t = n \<and> year t = y
           then Some (ValidationError [Unique_together]) else None))"
  using unique_create [of attrs n y d] unique_update [of attrs n i y d]
  by (intro conjI impI) (elim conjE, assumption)+

theorem name_and_year_unique_witness:
  "TitleSerializer_Meta_validator example_db None
       [(''name'', PyStr ''Dune''), (''year'', PyInt 1965)]
     = Some (ValidationError [Unique_together])
   \<and> TitleSerializer_Meta_validator example_db None
       [(''name'', PyStr ''Dune''), (''year'', PyInt 1984)] = None
   \<and> TitleSerializer_Meta_validator example_db (Some (example_titles ! 1))
       [(''name'', PyStr ''Dune''), (''year'', PyInt 1965)]
     = Some (ValidationError [Unique_together])
   \<and> TitleSerializer_Meta_validator example_db (Some (example_titles ! 1))
       [(''description'', PyStr ''new'')] = None"
proof -
  have a: "TitleSerializer_Meta_validator example_db None
       [(''name'', PyStr ''Dune''), (''year'', PyInt 1965)]
     = Some (ValidationError [Unique_together])"
    using name_and_year_unique
      [of "[(''name'', PyStr ''Dune''), (''year'', PyInt 1965)]" "''Dune''" 1965 example_db
        "example_titles ! 0"]
    by (simp add: example_db_def example_titles_def)
  have b: "TitleSerializer_Meta_validator example_db None
       [(''name'', PyStr ''Dune''), (''year'', PyInt 1984)] = None"
    using name_and_year_unique
      [of "[(''name'', PyStr ''Dune''), (''year'', PyInt 1984)]" "''Dune''" 1984 example_db
        "example_titles ! 0"]
    by (simp add: example_db_def example_titles_def)
  have c: "TitleSerializer_Meta_validator example_db (Some (example_titles ! 1))
       [(''name'', PyStr ''Dune''), (''year'', PyInt 1965)]
     = Some (ValidationError [Unique_together])"
    using name_and_year_unique
      [of "[(''name'', PyStr ''Dune''), (''year'', PyInt 1965)]" "''Dune''" 1965 example_db
        "example_titles ! 1"]
    by (simp add: example_db_def example_titles_def)
  have e: "TitleSerializer_Meta_validator example_db (Some (example_titles ! 1))
       [(''description'', PyStr ''new'')] = None"
    using name_and_year_unique
      [of "[(''description'', PyStr ''new'')]" "''Solaris''" 1961 example_db
        "example_titles ! 1"]
    by (simp add: example_db_def example_titles_def)
  from a b c e show ?thesis by (intro conjI)
qed

end
